theory Spec2Isabelle
  imports Complex_Main "HOL-Library.Log_Nat"
begin

section \<open>Python values\<close>

text \<open>
  A \<open>float\<close> is an IEEE 754 double: a finite value, given by the rational number it
  stands for (zero with a positive sign is \<open>Finite 0\<close>), the zero with a negative sign,
  an infinity, or a NaN.
\<close>

datatype pyfloat = Finite rat | NegZero | PosInf | NegInf | NaN

text \<open>
  The program is dynamically typed: the same variable holds the value of a spreadsheet
  cell, a piece of a decoded JSON body or \<open>None\<close>. One datatype covers the values that
  reach the functions below. An \<open>int\<close> is unbounded. A \<open>dict\<close> is the list of its
  items, looked up from the front.
\<close>

datatype pyval =
    PNone
  | PBool bool
  | PInt int
  | PFloat pyfloat
  | PStr string
  | PList "pyval list"
  | PDict "(string \<times> pyval) list"

text \<open>The exceptions that the functions below can raise.\<close>

datatype post_exc = ReadTimeout | ConnectTimeout | ConnectionError | OtherRequestException

datatype exn =
    ValueError
  | TypeError
  | KeyError
  | IndexError
  | AttributeError
  | OverflowError
  | HTTPError nat
  | JSONDecodeError
  | Raised post_exc
  | RequestException string

text \<open>Truth value testing, as \<open>if not x\<close> and \<open>if x and ...\<close> apply it.\<close>

fun truthy :: "pyval \<Rightarrow> bool" where
  "truthy PNone = False"
| "truthy (PBool b) = b"
| "truthy (PInt n) = (n \<noteq> 0)"
| "truthy (PFloat x) = (x \<noteq> Finite 0 \<and> x \<noteq> NegZero)"
| "truthy (PStr s) = (s \<noteq> [])"
| "truthy (PList xs) = (xs \<noteq> [])"
| "truthy (PDict kvs) = (kvs \<noteq> [])"

section \<open>Floating point\<close>

text \<open>
  The nearest integer, a tie going to the even one.
\<close>

definition round_half_even :: "rat \<Rightarrow> int" where
  "round_half_even x =
     (let f = \<lfloor>x\<rfloor>; d = x - of_int f
      in if d < 1 / 2 then f
         else if 1 / 2 < d then f + 1
         else if even f then f else f + 1)"

text \<open>
  Rounding a rational number to a double, to nearest with ties to even: \<open>pow2 k\<close> is
  \<open>2\<^sup>k\<close>, the binary exponent \<open>e\<close> of \<open>x\<close> has \<open>2\<^sup>e \<le> |x| < 2\<^sup>e\<^sup>+\<^sup>1\<close>, and a double
  with that exponent is a multiple of \<open>2\<^sup>e\<^sup>-\<^sup>5\<^sup>2\<close>; below \<open>2\<^sup>-\<^sup>1\<^sup>0\<^sup>2\<^sup>2\<close> the doubles are
  the multiples of \<open>2\<^sup>-\<^sup>1\<^sup>0\<^sup>7\<^sup>4\<close>. The result is out of range when it reaches \<open>2\<^sup>1\<^sup>0\<^sup>2\<^sup>4\<close>.
\<close>

definition pow2 :: "int \<Rightarrow> rat" where
  "pow2 k = (if 0 \<le> k then 2 ^ nat k else 1 / 2 ^ nat (- k))"

definition binary_exponent :: "rat \<Rightarrow> int" where
  "binary_exponent x =
     (case quotient_of \<bar>x\<bar> of
        (p, q) \<Rightarrow> (let d = bitlen p - bitlen q in if pow2 d \<le> \<bar>x\<bar> then d else d - 1))"

definition double_of :: "rat \<Rightarrow> rat" where
  "double_of x =
     (if x = 0 then 0
      else (let e = max (binary_exponent x) (- 1022);
                ulp = pow2 (e - 52)
            in of_int (round_half_even (x / ulp)) * ulp))"

definition out_of_range :: "rat \<Rightarrow> bool" where
  "out_of_range y = (2 ^ 1024 \<le> \<bar>y\<bar>)"

text \<open>
  \<open>int / int\<close> is the correctly rounded quotient, or \<open>OverflowError\<close> when that is out
  of range. The divisor of the program is 60.
\<close>

definition int_truediv_60 :: "int \<Rightarrow> exn + pyfloat" where
  "int_truediv_60 n =
     (let y = double_of (of_int n / 60)
      in if out_of_range y then Inl OverflowError else Inr (Finite y))"

text \<open>
  \<open>float / 60\<close>: the correctly rounded quotient, which keeps the sign when it is zero;
  the quotient of a finite double by 60 is never out of range.
\<close>

fun float_div_60 :: "pyfloat \<Rightarrow> pyfloat" where
  "float_div_60 (Finite x) =
     (let y = double_of (x / 60) in if y = 0 \<and> x < 0 then NegZero else Finite y)"
| "float_div_60 NegZero = NegZero"
| "float_div_60 PosInf = PosInf"
| "float_div_60 NegInf = NegInf"
| "float_div_60 NaN = NaN"

text \<open>
  \<open>round(x, 2)\<close> on a float: the decimal with two places nearest to the value of the
  double, a tie going to the even last digit, read back as a double. Zeros keep their
  sign, and a negative value that rounds to zero gives the negative zero; infinities
  and NaN are returned as they are.
\<close>

fun py_round2 :: "pyfloat \<Rightarrow> pyfloat" where
  "py_round2 (Finite x) =
     (let h = round_half_even (x * 100)
      in if h = 0 \<and> x < 0 then NegZero else Finite (double_of (of_int h / 100)))"
| "py_round2 NegZero = NegZero"
| "py_round2 PosInf = PosInf"
| "py_round2 NegInf = NegInf"
| "py_round2 NaN = NaN"

section \<open>seconds\_to\_minutes\<close>

text \<open>
  \<open>seconds / 60\<close> is defined on numbers (a \<open>bool\<close> is the integer 0 or 1) and raises
  \<open>TypeError\<close> on everything else.
\<close>

fun truediv_60 :: "pyval \<Rightarrow> exn + pyfloat" where
  "truediv_60 (PInt n) = int_truediv_60 n"
| "truediv_60 (PBool b) = int_truediv_60 (if b then 1 else 0)"
| "truediv_60 (PFloat x) = Inr (float_div_60 x)"
| "truediv_60 PNone = Inl TypeError"
| "truediv_60 (PStr s) = Inl TypeError"
| "truediv_60 (PList xs) = Inl TypeError"
| "truediv_60 (PDict kvs) = Inl TypeError"

definition seconds_to_minutes :: "pyval \<Rightarrow> exn + pyfloat option" where
  "seconds_to_minutes seconds =
     (if seconds = PNone then Inr None
      else (case truediv_60 seconds of
              Inl e \<Rightarrow> Inl e
            | Inr minutes \<Rightarrow> Inr (Some (py_round2 minutes))))"

section \<open>get\_date\_range\_for\_month\<close>

definition month_map :: "(string \<times> nat) list" where
  "month_map =
     [(''Jan'', 1), (''Feb'', 2), (''Mar'', 3), (''Apr'', 4),
      (''May'', 5), (''Jun'', 6), (''Jul'', 7), (''Aug'', 8),
      (''Sep'', 9), (''Oct'', 10), (''Nov'', 11), (''Dec'', 12)]"

text \<open>\<open>month_map.get(month_name, 1)\<close>.\<close>

definition month_num_of :: "string \<Rightarrow> nat" where
  "month_num_of month_name = (case map_of month_map month_name of Some n \<Rightarrow> n | None \<Rightarrow> 1)"

text \<open>
  The standard library's \<open>calendar\<close>: \<open>isleap\<close>, the table \<open>mdays\<close> and the second
  component of \<open>monthrange\<close>.
\<close>

definition isleap :: "int \<Rightarrow> bool" where
  "isleap year = (year mod 4 = 0 \<and> (year mod 100 \<noteq> 0 \<or> year mod 400 = 0))"

definition mdays :: "nat list" where
  "mdays = [0, 31, 28, 31, 30, 31, 30, 31, 31, 30, 31, 30, 31]"

definition monthrange_days :: "int \<Rightarrow> nat \<Rightarrow> nat" where
  "monthrange_days year month = mdays ! month + (if month = 2 \<and> isleap year then 1 else 0)"

text \<open>
  A \<open>datetime\<close>. The constructor raises \<open>ValueError\<close> for a year outside
  \<open>MINYEAR..MAXYEAR\<close>, a month outside 1..12 or a day the month does not have.
\<close>

record datetime =
  dt_year :: int
  dt_month :: nat
  dt_day :: nat
  dt_hour :: nat
  dt_minute :: nat
  dt_second :: nat

definition mk_datetime :: "int \<Rightarrow> nat \<Rightarrow> nat \<Rightarrow> nat \<Rightarrow> nat \<Rightarrow> nat \<Rightarrow> exn + datetime" where
  "mk_datetime y m d hh mm ss =
     (if 1 \<le> y \<and> y \<le> 9999 \<and> 1 \<le> m \<and> m \<le> 12 \<and> 1 \<le> d \<and> d \<le> monthrange_days y m
         \<and> hh < 24 \<and> mm < 60 \<and> ss < 60
      then Inr \<lparr>dt_year = y, dt_month = m, dt_day = d,
                dt_hour = hh, dt_minute = mm, dt_second = ss\<rparr>
      else Inl ValueError)"

text \<open>Decimal digits of a natural number, and a field padded with zeros to two digits.\<close>

definition digit_char :: "nat \<Rightarrow> char" where
  "digit_char d = char_of (48 + d)"

fun show_nat :: "nat \<Rightarrow> string" where
  "show_nat n = (if n < 10 then [digit_char n] else show_nat (n div 10) @ [digit_char (n mod 10)])"

declare show_nat.simps [simp del]

definition pad2 :: "nat \<Rightarrow> string" where
  "pad2 n = (if n < 10 then CHR ''0'' # show_nat n else show_nat n)"

text \<open>
  \<open>strftime("%Y-%m-%dT00:00:00.000000Z")\<close>: only the date fields are directives, the
  time of day is literal text of the format. \<open>%Y\<close> is the year in decimal: four digits
  from the year 1000 on; below that the C library decides whether zeros are put in
  front, and the form without them is the one written here.
\<close>

definition strftime_midnight :: "datetime \<Rightarrow> string" where
  "strftime_midnight d =
     show_nat (nat (dt_year d)) @ ''-'' @ pad2 (dt_month d) @ ''-'' @ pad2 (dt_day d)
       @ ''T00:00:00.000000Z''"

definition first_day_of :: "int \<Rightarrow> nat \<Rightarrow> exn + datetime" where
  "first_day_of year month_num = mk_datetime year month_num 1 0 0 0"

definition last_day_of :: "int \<Rightarrow> nat \<Rightarrow> exn + datetime" where
  "last_day_of year month_num =
     mk_datetime year month_num (monthrange_days year month_num) 23 59 59"

definition get_date_range_for_month :: "string \<Rightarrow> int \<Rightarrow> exn + (string \<times> string)" where
  "get_date_range_for_month month_name year =
     (let month_num = month_num_of month_name in
      case first_day_of year month_num of
        Inl e \<Rightarrow> Inl e
      | Inr first_day \<Rightarrow>
          (case last_day_of year month_num of
             Inl e \<Rightarrow> Inl e
           | Inr last_day \<Rightarrow>
               Inr (strftime_midnight first_day, strftime_midnight last_day)))"

section \<open>The world outside the program\<close>

text \<open>
  What the program cannot decide is read from an environment: the outcome of the
  \<open>k\<close>-th call of \<open>requests.post\<close>, the raw value behind the \<open>k\<close>-th draw from
  \<open>random\<close>, and the variable \<open>PAGERDUTY_API_TOKEN\<close>.

  A response is its status code, its \<open>Retry-After\<close> header as \<open>int(...)\<close> sees it
  (absent, an integer, or text that \<open>int\<close> rejects with \<open>ValueError\<close>), and what
  \<open>response.json()\<close> gives: the decoded body, or nothing when it raises
  \<open>requests.exceptions.JSONDecodeError\<close>, which is a \<open>RequestException\<close>.
\<close>

datatype retry_after = NoRetryAfter | RetryAfterInt int | RetryAfterBad

datatype http_outcome = Response nat retry_after "pyval option" | Raises post_exc

record env =
  net :: "nat \<Rightarrow> http_outcome"
  rnd :: "nat \<Rightarrow> nat"
  api_token_var :: "string option"

text \<open>The worksheet: its extent, the value of every cell and the cells' number formats.\<close>

record sheet =
  max_row :: int
  max_column :: int
  cell_values :: "int \<times> int \<Rightarrow> pyval"
  number_formats :: "int \<times> int \<Rightarrow> string"

record payload =
  escalation_policy_ids :: "pyval list"
  created_at_start :: string
  created_at_end :: string

text \<open>
  The run leaves a trace of what it did to the outside: sleeps, requests, calls of
  \<open>process_row\<close> with what they returned, assignments to a cell of the month column,
  the error messages of the aborting paths, and the save. Progress messages are not
  recorded.
\<close>

datatype message =
    ExcelFileNotFound
  | ColumnNotFound string "pyval list"
  | TokenNotSet

datatype event =
    Sleep rat
  | Post payload
  | Fetched int payload "pyfloat option"
  | Wrote int pyfloat
  | Printed message
  | Saved

record world =
  posts :: nat
  draws :: nat
  trace :: "event list"
  disk :: "sheet option"

definition emit :: "event \<Rightarrow> world \<Rightarrow> world" where
  "emit ev w = w\<lparr>trace := trace w @ [ev]\<rparr>"

text \<open>\<open>time.sleep\<close> raises \<open>ValueError\<close> on a negative length.\<close>

definition py_sleep :: "rat \<Rightarrow> world \<Rightarrow> exn + world" where
  "py_sleep secs w = (if secs < 0 then Inl ValueError else Inr (emit (Sleep secs) w))"

definition requests_post ::
  "env \<Rightarrow> string \<Rightarrow> (string \<times> string) list \<Rightarrow> payload \<Rightarrow> bool \<Rightarrow> world \<Rightarrow> http_outcome \<times> world" where
  "requests_post E url headers pl verify_ssl w =
     (net E (posts w), emit (Post pl) (w\<lparr>posts := posts w + 1\<rparr>))"

text \<open>
  \<open>random.randint(a, b)\<close> returns an integer \<open>N\<close> with \<open>a \<le> N \<le> b\<close>;
  \<open>random.uniform(a, b)\<close> is \<open>a + (b - a) * random()\<close> with \<open>random()\<close> a multiple of
  \<open>2\<^sup>-\<^sup>5\<^sup>3\<close> in \<open>[0, 1)\<close>.
\<close>

definition randint :: "env \<Rightarrow> int \<Rightarrow> int \<Rightarrow> world \<Rightarrow> int \<times> world" where
  "randint E a b w =
     (a + int (rnd E (draws w) mod nat (b - a + 1)), w\<lparr>draws := draws w + 1\<rparr>)"

definition uniform :: "env \<Rightarrow> rat \<Rightarrow> rat \<Rightarrow> world \<Rightarrow> rat \<times> world" where
  "uniform E a b w =
     (a + (b - a) * (of_nat (rnd E (draws w) mod 2 ^ 53) / 2 ^ 53),
      w\<lparr>draws := draws w + 1\<rparr>)"

section \<open>make\_api\_request\<close>

definition max_retries :: nat where
  "max_retries = 7"

text \<open>\<open>int(response.headers.get('Retry-After', retry_delay))\<close>.\<close>

fun retry_after_seconds :: "retry_after \<Rightarrow> int \<Rightarrow> exn + int" where
  "retry_after_seconds NoRetryAfter retry_delay = Inr retry_delay"
| "retry_after_seconds (RetryAfterInt n) retry_delay = Inr n"
| "retry_after_seconds RetryAfterBad retry_delay = Inl ValueError"

text \<open>
  One pass through the body of the \<open>while\<close> loop ends in a \<open>return\<close>, in an exception
  that leaves the function, or at the loop's head again with a new \<open>retry_count\<close> and
  \<open>retry_delay\<close>.
\<close>

datatype attempt_result = Returned pyval | Raising exn | Again nat int

text \<open>The three \<open>except\<close> clauses, in the order of the source.\<close>

definition on_timeout :: "nat \<Rightarrow> int \<Rightarrow> world \<Rightarrow> attempt_result \<times> world" where
  "on_timeout retry_count retry_delay w =
     (let retry_count = retry_count + 1 in
      if retry_count \<ge> max_retries
      then (Raising (RequestException ''Request timed out after 7 retries''), w)
      else
        (let wait_time = retry_delay * 2 in
         case py_sleep (of_int wait_time) w of
           Inl e \<Rightarrow> (Raising e, w)
         | Inr w1 \<Rightarrow> (Again retry_count (min (retry_delay * 2) 120), w1)))"

definition on_connection_error :: "env \<Rightarrow> nat \<Rightarrow> int \<Rightarrow> world \<Rightarrow> attempt_result \<times> world" where
  "on_connection_error E retry_count retry_delay w =
     (let retry_count = retry_count + 1 in
      if retry_count \<ge> max_retries
      then (Raising (RequestException ''Connection error after 7 retries''), w)
      else
        (case uniform E 0 2 w of
           (jitter, w1) \<Rightarrow>
             (let wait_time = of_int retry_delay + jitter in
              case py_sleep wait_time w1 of
                Inl e \<Rightarrow> (Raising e, w1)
              | Inr w2 \<Rightarrow> (Again retry_count (min (retry_delay * 2) 120), w2))))"

definition on_request_exception ::
  "env \<Rightarrow> exn \<Rightarrow> nat \<Rightarrow> int \<Rightarrow> world \<Rightarrow> attempt_result \<times> world" where
  "on_request_exception E e retry_count retry_delay w =
     (let retry_count = retry_count + 1 in
      if retry_count \<ge> max_retries
      then (Raising e, w)
      else
        (case uniform E 0 2 w of
           (jitter, w1) \<Rightarrow>
             (let wait_time = of_int retry_delay + jitter in
              case py_sleep wait_time w1 of
                Inl e' \<Rightarrow> (Raising e', w1)
              | Inr w2 \<Rightarrow> (Again retry_count (min (retry_delay * 2) 120), w2))))"

text \<open>
  The body of the \<open>try\<close>. \<open>ConnectTimeout\<close> is both a \<open>ConnectionError\<close> and a
  \<open>Timeout\<close>, and the \<open>Timeout\<close> clause comes first. A \<open>ValueError\<close> is none of the
  three and leaves the function.
\<close>

definition attempt ::
  "env \<Rightarrow> string \<Rightarrow> (string \<times> string) list \<Rightarrow> payload \<Rightarrow> rat \<Rightarrow> bool \<Rightarrow> nat \<Rightarrow> int \<Rightarrow> world
     \<Rightarrow> attempt_result \<times> world" where
  "attempt E url headers pl delay verify_ssl retry_count retry_delay w =
     (case py_sleep delay w of
        Inl e \<Rightarrow> (Raising e, w)
      | Inr w1 \<Rightarrow>
          (case requests_post E url headers pl verify_ssl w1 of
             (Raises ReadTimeout, w2) \<Rightarrow> on_timeout retry_count retry_delay w2
           | (Raises ConnectTimeout, w2) \<Rightarrow> on_timeout retry_count retry_delay w2
           | (Raises ConnectionError, w2) \<Rightarrow> on_connection_error E retry_count retry_delay w2
           | (Raises OtherRequestException, w2) \<Rightarrow>
               on_request_exception E (Raised OtherRequestException) retry_count retry_delay w2
           | (Response status ra body, w2) \<Rightarrow>
               if status = 429 then
                 (case retry_after_seconds ra retry_delay of
                    Inl e \<Rightarrow> (Raising e, w2)
                  | Inr secs \<Rightarrow>
                      (case py_sleep (of_int secs) w2 of
                         Inl e \<Rightarrow> (Raising e, w2)
                       | Inr w3 \<Rightarrow> (Again (retry_count + 1) (min (retry_delay * 2) 120), w3)))
               else if 400 \<le> status \<and> status < 600 then
                 on_request_exception E (HTTPError status) retry_count retry_delay w2
               else
                 (case body of
                    None \<Rightarrow> on_request_exception E JSONDecodeError retry_count retry_delay w2
                  | Some v \<Rightarrow> (Returned v, w2))))"

lemma attempt_Again_count:
  "attempt E url headers pl delay verify_ssl rc rd w = (Again rc' rd', w') \<Longrightarrow> rc' = rc + 1"
  by (auto simp: attempt_def on_timeout_def on_connection_error_def on_request_exception_def
        Let_def
      split: sum.splits prod.splits http_outcome.splits post_exc.splits if_splits
        option.splits)

function api_loop ::
  "env \<Rightarrow> string \<Rightarrow> (string \<times> string) list \<Rightarrow> payload \<Rightarrow> rat \<Rightarrow> bool \<Rightarrow> nat \<Rightarrow> int \<Rightarrow> world
     \<Rightarrow> (exn + pyval) \<times> world" where
  "api_loop E url headers pl delay verify_ssl retry_count retry_delay w =
     (if retry_count < max_retries then
        (case attempt E url headers pl delay verify_ssl retry_count retry_delay w of
           (Returned v, w') \<Rightarrow> (Inr v, w')
         | (Raising e, w') \<Rightarrow> (Inl e, w')
         | (Again retry_count' retry_delay', w') \<Rightarrow>
             api_loop E url headers pl delay verify_ssl retry_count' retry_delay' w')
      else (Inl (RequestException ''Failed after 7 retries''), w))"
  by pat_completeness auto
termination
  by (relation "measure (\<lambda>(E, url, headers, pl, delay, verify_ssl, rc, rd, w). max_retries - rc)")
     (auto dest!: attempt_Again_count[OF sym])

declare api_loop.simps [simp del]

definition mock_response :: "int \<Rightarrow> int \<Rightarrow> pyval" where
  "mock_response mean_seconds incident_count =
     PDict [(''data'',
       PList [PDict [(''mean_seconds_to_first_ack'', PInt mean_seconds),
                     (''total_incident_count'', PInt incident_count)]])]"

definition make_api_request ::
  "env \<Rightarrow> string \<Rightarrow> (string \<times> string) list \<Rightarrow> payload \<Rightarrow> bool \<Rightarrow> rat \<Rightarrow> bool \<Rightarrow> world
     \<Rightarrow> (exn + pyval) \<times> world" where
  "make_api_request E url headers pl mock_api delay verify_ssl w =
     (if mock_api then
        (case randint E 120 7200 w of
           (mean_seconds, w1) \<Rightarrow>
             (case randint E 5 20 w1 of
                (incident_count, w2) \<Rightarrow> (Inr (mock_response mean_seconds incident_count), w2)))
      else api_loop E url headers pl delay verify_ssl 0 3 w)"

section \<open>process\_row\<close>

text \<open>
  The operations that \<open>process_row\<close> applies to the decoded body, each with the
  exception Python raises on a value of the wrong kind:
  \<open>k in x\<close>, \<open>x[k]\<close> for a string \<open>k\<close>, \<open>len(x)\<close>, \<open>x[0]\<close> and \<open>x.get(k)\<close>.
\<close>

fun is_substring :: "string \<Rightarrow> string \<Rightarrow> bool" where
  "is_substring k [] = (k = [])"
| "is_substring k (c # cs) = (take (length k) (c # cs) = k \<or> is_substring k cs)"

fun py_in :: "string \<Rightarrow> pyval \<Rightarrow> exn + bool" where
  "py_in k (PDict kvs) = Inr (k \<in> set (map fst kvs))"
| "py_in k (PList xs) = Inr (PStr k \<in> set xs)"
| "py_in k (PStr s) = Inr (is_substring k s)"
| "py_in k PNone = Inl TypeError"
| "py_in k (PBool b) = Inl TypeError"
| "py_in k (PInt n) = Inl TypeError"
| "py_in k (PFloat x) = Inl TypeError"

fun py_getitem :: "pyval \<Rightarrow> string \<Rightarrow> exn + pyval" where
  "py_getitem (PDict kvs) k = (case map_of kvs k of Some v \<Rightarrow> Inr v | None \<Rightarrow> Inl KeyError)"
| "py_getitem (PList xs) k = Inl TypeError"
| "py_getitem (PStr s) k = Inl TypeError"
| "py_getitem PNone k = Inl TypeError"
| "py_getitem (PBool b) k = Inl TypeError"
| "py_getitem (PInt n) k = Inl TypeError"
| "py_getitem (PFloat x) k = Inl TypeError"

fun py_len :: "pyval \<Rightarrow> exn + nat" where
  "py_len (PList xs) = Inr (length xs)"
| "py_len (PDict kvs) = Inr (length (remdups (map fst kvs)))"
| "py_len (PStr s) = Inr (length s)"
| "py_len PNone = Inl TypeError"
| "py_len (PBool b) = Inl TypeError"
| "py_len (PInt n) = Inl TypeError"
| "py_len (PFloat x) = Inl TypeError"

fun py_first :: "pyval \<Rightarrow> exn + pyval" where
  "py_first (PList []) = Inl IndexError"
| "py_first (PList (x # xs)) = Inr x"
| "py_first (PStr []) = Inl IndexError"
| "py_first (PStr (c # cs)) = Inr (PStr [c])"
| "py_first (PDict kvs) = Inl KeyError"
| "py_first PNone = Inl TypeError"
| "py_first (PBool b) = Inl TypeError"
| "py_first (PInt n) = Inl TypeError"
| "py_first (PFloat x) = Inl TypeError"

fun py_get :: "pyval \<Rightarrow> string \<Rightarrow> exn + pyval" where
  "py_get (PDict kvs) k = Inr (case map_of kvs k of Some v \<Rightarrow> v | None \<Rightarrow> PNone)"
| "py_get (PList xs) k = Inl AttributeError"
| "py_get (PStr s) k = Inl AttributeError"
| "py_get PNone k = Inl AttributeError"
| "py_get (PBool b) k = Inl AttributeError"
| "py_get (PInt n) k = Inl AttributeError"
| "py_get (PFloat x) k = Inl AttributeError"

text \<open>Sequencing of steps that may raise: the first exception ends the sequence.\<close>

definition and_then :: "exn + 'a \<Rightarrow> ('a \<Rightarrow> exn + 'b) \<Rightarrow> exn + 'b" where
  "and_then r f = (case r of Inl e \<Rightarrow> Inl e | Inr x \<Rightarrow> f x)"

text \<open>
  The value of \<open>mean_seconds\<close> after the \<open>if\<close>/\<open>else\<close>:
  \<open>data['data'][0].get('mean_seconds_to_first_ack')\<close> when
  \<open>'data' in data and len(data['data']) > 0\<close>, and \<open>None\<close> otherwise.
\<close>

definition mean_seconds_of :: "pyval \<Rightarrow> exn + pyval" where
  "mean_seconds_of data =
     and_then (py_in ''data'' data) (\<lambda>present.
       if \<not> present then Inr PNone
       else and_then (py_getitem data ''data'') (\<lambda>d.
         and_then (py_len d) (\<lambda>n.
           if n > 0 then
             and_then (py_getitem data ''data'') (\<lambda>d'.
               and_then (py_first d') (\<lambda>item.
                 py_get item ''mean_seconds_to_first_ack''))
           else Inr PNone)))"

text \<open>\<open>except Exception\<close> turns every exception of the \<open>try\<close> body into \<open>None\<close>.\<close>

definition process_row ::
  "env \<Rightarrow> int \<Rightarrow> pyval \<Rightarrow> pyval \<Rightarrow> int \<Rightarrow> string \<Rightarrow> (string \<times> string) list \<Rightarrow> payload
     \<Rightarrow> bool \<Rightarrow> rat \<Rightarrow> bool \<Rightarrow> world \<Rightarrow> pyfloat option \<times> world" where
  "process_row E row id_value name month_col_idx url headers pl mock_api delay verify_ssl w =
     (case make_api_request E url headers pl mock_api delay verify_ssl w of
        (Inl e, w') \<Rightarrow> (None, w')
      | (Inr data, w') \<Rightarrow>
          (case and_then (mean_seconds_of data) seconds_to_minutes of
             Inl e \<Rightarrow> (None, w')
           | Inr minutes_value \<Rightarrow> (minutes_value, w')))"

section \<open>fetch\_and\_update\_pagerduty\_metrics\<close>

text \<open>
  The row range. \<open>if start_row and ...\<close> tests the truth value of the bound first, so
  \<open>None\<close> and \<open>0\<close> both leave the default in place.
\<close>

definition row_range :: "int option \<Rightarrow> int option \<Rightarrow> int \<Rightarrow> int \<times> int" where
  "row_range start_row end_row sheet_max_row =
     (let first_row = 2;
          last_row = sheet_max_row;
          first_row = (case start_row of
                         Some s \<Rightarrow> if s \<noteq> 0 \<and> s > first_row then s else first_row
                       | None \<Rightarrow> first_row);
          last_row = (case end_row of
                        Some e \<Rightarrow> if e \<noteq> 0 \<and> e < last_row then e else last_row
                      | None \<Rightarrow> last_row)
      in (first_row, last_row))"

text \<open>The keyword arguments of the function.\<close>

record run_args =
  mock_api :: bool
  month :: string
  force_update :: bool
  delay :: rat
  start_row :: "int option"
  end_row :: "int option"
  verify_ssl :: bool

text \<open>\<open>list.index\<close>: the position of the first equal element, or \<open>ValueError\<close>.\<close>

fun py_index :: "'a list \<Rightarrow> 'a \<Rightarrow> exn + nat" where
  "py_index [] x = Inl ValueError"
| "py_index (y # ys) x =
     (if y = x then Inr 0
      else (case py_index ys x of Inl e \<Rightarrow> Inl e | Inr i \<Rightarrow> Inr (i + 1)))"

definition header_row :: "sheet \<Rightarrow> pyval list" where
  "header_row sh = map (\<lambda>col. cell_values sh (1, col)) [1..max_column sh]"

definition api_url :: string where
  "api_url = ''https://api.pagerduty.com/analytics/metrics/incidents/all''"

definition request_headers :: "string option \<Rightarrow> (string \<times> string) list" where
  "request_headers api_token =
     [(''Authorization'',
         ''Token token='' @ (case api_token of None \<Rightarrow> ''None'' | Some t \<Rightarrow> t)),
      (''Content-Type'', ''application/json''),
      (''Accept'', ''application/vnd.pagerduty+json;version=2''),
      (''User-Agent'', ''PagerDuty-MTTA-Analysis/1.0'')]"

text \<open>\<open>existing_value is not None and existing_value != ""\<close>.\<close>

definition has_value :: "pyval \<Rightarrow> bool" where
  "has_value existing_value = (existing_value \<noteq> PNone \<and> existing_value \<noteq> PStr [])"

definition set_cell :: "sheet \<Rightarrow> int \<Rightarrow> int \<Rightarrow> pyfloat \<Rightarrow> sheet" where
  "set_cell sh row col v =
     sh\<lparr>cell_values := (cell_values sh)((row, col) := PFloat v),
        number_formats := (number_formats sh)((row, col) := ''0.00'')\<rparr>"

text \<open>
  The body of the \<open>for\<close> loop, for one row. The result is the worksheet after the row,
  or the exception that ends the run.
\<close>

definition update_row ::
  "env \<Rightarrow> run_args \<Rightarrow> (string \<times> string) list \<Rightarrow> int \<Rightarrow> int \<Rightarrow> int \<Rightarrow> sheet \<Rightarrow> world
     \<Rightarrow> (exn + sheet) \<times> world" where
  "update_row E a headers id_col_idx month_col_idx row sh w =
     (let id_value = cell_values sh (row, id_col_idx) in
      if \<not> truthy id_value then (Inr sh, w)
      else
        (let existing_value = cell_values sh (row, month_col_idx) in
         if has_value existing_value \<and> \<not> force_update a then (Inr sh, w)
         else
           (let name = cell_values sh (row, 1); url = api_url in
            case get_date_range_for_month (month a) 2025 of
              Inl e \<Rightarrow> (Inl e, w)
            | Inr (start_date, end_date) \<Rightarrow>
                (let pl = \<lparr>escalation_policy_ids = [id_value],
                           created_at_start = start_date,
                           created_at_end = end_date\<rparr>
                 in case process_row E row id_value name month_col_idx url headers pl
                           (mock_api a) (delay a) (verify_ssl a) w of
                      (minutes_value, w1) \<Rightarrow>
                        (let w2 = emit (Fetched row pl minutes_value) w1 in
                         case minutes_value of
                           Some v \<Rightarrow>
                             (Inr (set_cell sh row month_col_idx v), emit (Wrote row v) w2)
                         | None \<Rightarrow> (Inr sh, w2))))))"

fun process_rows ::
  "env \<Rightarrow> run_args \<Rightarrow> (string \<times> string) list \<Rightarrow> int \<Rightarrow> int \<Rightarrow> int list \<Rightarrow> sheet \<Rightarrow> world
     \<Rightarrow> (exn + sheet) \<times> world" where
  "process_rows E a headers id_col_idx month_col_idx [] sh w = (Inr sh, w)"
| "process_rows E a headers id_col_idx month_col_idx (row # rows) sh w =
     (case update_row E a headers id_col_idx month_col_idx row sh w of
        (Inl e, w') \<Rightarrow> (Inl e, w')
      | (Inr sh', w') \<Rightarrow> process_rows E a headers id_col_idx month_col_idx rows sh' w')"

text \<open>\<open>not api_token\<close>: the variable is unset or empty.\<close>

definition no_token :: "string option \<Rightarrow> bool" where
  "no_token api_token = (case api_token of None \<Rightarrow> True | Some t \<Rightarrow> t = [])"

text \<open>
  The run. The file on disk is read once and written once, by \<open>wb.save\<close> after the
  loop; a \<open>return\<close> or an exception before that leaves it as it was.
\<close>

definition fetch_and_update_pagerduty_metrics ::
  "env \<Rightarrow> run_args \<Rightarrow> world \<Rightarrow> (exn + unit) \<times> world" where
  "fetch_and_update_pagerduty_metrics E a w =
     (case disk w of
        None \<Rightarrow> (Inr (), emit (Printed ExcelFileNotFound) w)
      | Some sh \<Rightarrow>
          (let headers = header_row sh in
           case py_index headers (PStr ''id'') of
             Inl e \<Rightarrow> (Inl e, w)
           | Inr i \<Rightarrow>
               (let id_col_idx = int i + 1 in
                case py_index headers (PStr (month a)) of
                  Inl e \<Rightarrow> (Inr (), emit (Printed (ColumnNotFound (month a) headers)) w)
                | Inr j \<Rightarrow>
                    (let month_col_idx = int j + 1;
                         api_token = api_token_var E
                     in if no_token api_token \<and> \<not> mock_api a
                        then (Inr (), emit (Printed TokenNotSet) w)
                        else
                          (let headers = request_headers api_token in
                           case row_range (start_row a) (end_row a) (max_row sh) of
                             (first_row, last_row) \<Rightarrow>
                               (case process_rows E a headers id_col_idx month_col_idx
                                       [first_row..last_row] sh w of
                                  (Inl e, w') \<Rightarrow> (Inl e, w')
                                | (Inr sh', w') \<Rightarrow>
                                    (Inr (), emit Saved (w'\<lparr>disk := Some sh'\<rparr>))))))))"

section \<open>The command line\<close>



section \<open>Vocabulary of the statements\<close>

text \<open>
  An outcome of \<open>requests.post\<close> after which \<open>make_api_request\<close> goes round its loop
  again (or gives up, on the last round): any exception of \<open>requests\<close>, a 429 whose
  \<open>Retry-After\<close> is absent or a duration (an integer that is not negative), a status
  that \<open>raise_for_status\<close> rejects, a body that does not decode.
\<close>

fun usable_retry_after :: "retry_after \<Rightarrow> bool" where
  "usable_retry_after NoRetryAfter = True"
| "usable_retry_after (RetryAfterInt n) = (0 \<le> n)"
| "usable_retry_after RetryAfterBad = False"

fun retried_failure :: "http_outcome \<Rightarrow> bool" where
  "retried_failure (Raises x) = True"
| "retried_failure (Response status ra body) =
     (if status = 429 then usable_retry_after ra
      else (400 \<le> status \<and> status < 600) \<or> body = None)"

text \<open>The exceptions that are instances of \<open>requests.exceptions.RequestException\<close>.\<close>

fun is_request_exception :: "exn \<Rightarrow> bool" where
  "is_request_exception (RequestException msg) = True"
| "is_request_exception (HTTPError status) = True"
| "is_request_exception JSONDecodeError = True"
| "is_request_exception (Raised x) = True"
| "is_request_exception e = False"

text \<open>
  The events of the fetch itself, and the relation between the world before and after a
  step that only sleeps, posts and draws random numbers: the file on disk is the same and
  the trace grew by sleeps and posts.
\<close>

fun io_event :: "event \<Rightarrow> bool" where
  "io_event (Sleep secs) = True"
| "io_event (Post pl) = True"
| "io_event ev = False"

definition io_only :: "world \<Rightarrow> world \<Rightarrow> bool" where
  "io_only w w' =
     (disk w' = disk w \<and> posts w \<le> posts w'
      \<and> (\<exists>es. trace w' = trace w @ es \<and> list_all io_event es))"

text \<open>
  Reading the trace: the events a step added, and among some events the results of the
  calls of \<open>process_row\<close> for a row, the values assigned to the row's cell, and the
  payloads of all calls.
\<close>

definition new_events :: "world \<Rightarrow> world \<Rightarrow> event list" where
  "new_events w w' = drop (length (trace w)) (trace w')"

fun fetched_for :: "int \<Rightarrow> event \<Rightarrow> pyfloat option list" where
  "fetched_for r (Fetched row pl res) = (if row = r then [res] else [])"
| "fetched_for r ev = []"

definition fetch_results :: "int \<Rightarrow> event list \<Rightarrow> pyfloat option list" where
  "fetch_results r es = concat (map (fetched_for r) es)"

fun wrote_for :: "int \<Rightarrow> event \<Rightarrow> pyfloat list" where
  "wrote_for r (Wrote row v) = (if row = r then [v] else [])"
| "wrote_for r ev = []"

definition written_values :: "int \<Rightarrow> event list \<Rightarrow> pyfloat list" where
  "written_values r es = concat (map (wrote_for r) es)"

fun payload_of :: "event \<Rightarrow> payload list" where
  "payload_of (Fetched row pl res) = [pl]"
| "payload_of ev = []"

definition fetched_payloads :: "event list \<Rightarrow> payload list" where
  "fetched_payloads es = concat (map payload_of es)"


section \<open>Example inputs\<close>

text \<open>
  A world in which nothing has happened yet, a payload, and a body of the shape the
  service documents, with a mean of 120 seconds.
\<close>

definition ex_world :: world where
  "ex_world = \<lparr>posts = 0, draws = 0, trace = [], disk = None\<rparr>"

definition ex_payload :: payload where
  "ex_payload = \<lparr>escalation_policy_ids = [PStr ''P1''],
                  created_at_start = ''2025-01-01T00:00:00.000000Z'',
                  created_at_end = ''2025-01-31T00:00:00.000000Z''\<rparr>"

definition ex_body :: pyval where
  "ex_body = PDict [(''data'',
     PList [PDict [(''mean_seconds_to_first_ack'', PInt 120),
                   (''total_incident_count'', PInt 7)]])]"


text \<open>Six connection errors, then a 200 with the body above.\<close>

definition ex_env_six_errors :: env where
  "ex_env_six_errors =
     \<lparr>net = (\<lambda>k. if k < 6 then Raises ConnectionError
                  else Response 200 NoRetryAfter (Some ex_body)),
      rnd = (\<lambda>k. k),
      api_token_var = Some ''secret''\<rparr>"

text \<open>Connection errors only.\<close>

definition ex_env_down :: env where
  "ex_env_down =
     \<lparr>net = (\<lambda>k. Raises ConnectionError), rnd = (\<lambda>k. k), api_token_var = Some ''secret''\<rparr>"

text \<open>
  429 on every request: without a \<open>Retry-After\<close> on the even requests, with
  \<open>Retry-After: 1\<close> on the odd ones.
\<close>

definition ex_env_limited :: env where
  "ex_env_limited =
     \<lparr>net = (\<lambda>k. Response 429 (if even k then NoRetryAfter else RetryAfterInt 1) None),
      rnd = (\<lambda>k. k),
      api_token_var = Some ''secret''\<rparr>"

text \<open>429 on every request, with a \<open>Retry-After\<close> that is a date, not a number.\<close>

definition ex_env_retry_date :: env where
  "ex_env_retry_date =
     \<lparr>net = (\<lambda>k. Response 429 RetryAfterBad None),
      rnd = (\<lambda>k. k),
      api_token_var = Some ''secret''\<rparr>"

text \<open>No token in the environment, and raw random values that are large.\<close>

definition ex_env_mock :: env where
  "ex_env_mock =
     \<lparr>net = (\<lambda>k. Raises ConnectionError),
      rnd = (\<lambda>k. 1000003 * (k + 1)),
      api_token_var = None\<rparr>"

text \<open>
  A worksheet of three rows: the header, a policy with a value for January already, and
  a policy without one. Two sets of arguments: the defaults with no delay, and the same
  with \<open>force_update\<close>.
\<close>

definition ex_sheet :: sheet where
  "ex_sheet =
     \<lparr>max_row = 3, max_column = 3,
      cell_values = (\<lambda>rc. PNone)
        ((1, 1) := PStr ''name'', (1, 2) := PStr ''id'', (1, 3) := PStr ''Jan'',
         (2, 1) := PStr ''Alpha'', (2, 2) := PStr ''P1'', (2, 3) := PInt 5,
         (3, 1) := PStr ''Beta'', (3, 2) := PStr ''P2''),
      number_formats = (\<lambda>rc. ''General'')\<rparr>"

definition ex_args :: run_args where
  "ex_args = \<lparr>mock_api = False, month = ''Jan'', force_update = False, delay = 0,
               start_row = None, end_row = None, verify_ssl = True\<rparr>"

definition ex_args_force :: run_args where
  "ex_args_force = ex_args\<lparr>force_update := True\<rparr>"

text \<open>
  The same worksheet grown to 100 rows, with a policy in row 5, the file that holds it,
  and arguments that select row 5 alone in mock mode.
\<close>

definition ex_sheet_100 :: sheet where
  "ex_sheet_100 =
     ex_sheet\<lparr>max_row := 100,
              cell_values := (cell_values ex_sheet)
                ((5, 1) := PStr ''Echo'', (5, 2) := PStr ''P5'')\<rparr>"

definition ex_args_row_5 :: run_args where
  "ex_args_row_5 = ex_args\<lparr>mock_api := True, start_row := Some 5, end_row := Some 5\<rparr>"


section \<open>Properties of seconds\_to\_minutes\<close>

lemma round_half_even_near: "\<bar>of_int (round_half_even x) - x\<bar> \<le> 1 / 2"
  unfolding round_half_even_def Let_def
  by (auto simp: abs_if not_less) linarith+

lemma round_half_even_tie:
  assumes "\<bar>of_int (round_half_even x) - x\<bar> = 1 / 2"
  shows "even (round_half_even x)"
proof -
  define f where "f = \<lfloor>x\<rfloor>"
  define d where "d = x - of_int f"
  have d: "0 \<le> d" "d < 1"
    unfolding d_def f_def by linarith+
  have x: "x = of_int f + d"
    by (simp add: d_def)
  consider "d < 1 / 2" | "1 / 2 < d" | "d = 1 / 2"
    by linarith
  then show ?thesis
  proof cases
    case 1
    then have "round_half_even x = f"
      by (simp add: round_half_even_def Let_def f_def d_def)
    with assms x d 1 show ?thesis
      by simp
  next
    case 2
    then have "round_half_even x = f + 1"
      by (simp add: round_half_even_def Let_def f_def d_def)
    with assms x d 2 show ?thesis
      by simp
  next
    case 3
    then have "round_half_even x = (if even f then f else f + 1)"
      by (simp add: round_half_even_def Let_def f_def d_def)
    then show ?thesis
      by simp
  qed
qed

text \<open>
  \<open>binary_exponent\<close> is the exponent of the binade of its argument, and \<open>double_of\<close>
  is a nearest double: a multiple \<open>m\<close> of the unit in the last place with
  \<open>|m| \<le> 2\<^sup>5\<^sup>3\<close>, at most half a unit away, with \<open>m\<close> even at a tie.
\<close>

lemma pow2_pos: "0 < pow2 k"
  by (simp add: pow2_def)

lemma pow2_add: "pow2 (a + b) = pow2 a * pow2 b"
proof -
  have "pow2 k = 2 powi k" for k
    by (simp add: pow2_def power_int_def field_simps)
  then show ?thesis
    by (simp add: power_int_add)
qed

lemma pow2_mono: "a \<le> b \<Longrightarrow> pow2 a \<le> pow2 b"
proof -
  have "pow2 k = 2 powi k" for k
    by (simp add: pow2_def power_int_def field_simps)
  then show "a \<le> b \<Longrightarrow> pow2 a \<le> pow2 b"
    by (simp add: power_int_increasing)
qed

lemma bitlen_pow2_bounds:
  assumes "0 < p"
  shows "pow2 (bitlen p - 1) \<le> of_int p" "of_int p < pow2 (bitlen p)"
proof -
  have "bitlen p \<noteq> 0"
    using assms by (simp add: bitlen_eq_zero_iff)
  then have b: "0 < bitlen p"
    using bitlen_nonneg[of p] by linarith
  have "2 ^ nat (bitlen p - 1) \<le> p" "p < 2 ^ nat (bitlen p)"
    using bitlen_bounds[OF assms] by simp_all
  then have "(of_int (2 ^ nat (bitlen p - 1)) :: rat) \<le> of_int p"
    "(of_int p :: rat) < of_int (2 ^ nat (bitlen p))"
    by (simp_all only: of_int_le_iff of_int_less_iff)
  then show "pow2 (bitlen p - 1) \<le> of_int p" "of_int p < pow2 (bitlen p)"
    using b by (simp_all add: pow2_def)
qed

lemma binary_exponent_bounds:
  assumes "x \<noteq> 0"
  shows "pow2 (binary_exponent x) \<le> \<bar>x\<bar>" "\<bar>x\<bar> < pow2 (binary_exponent x + 1)"
proof -
  obtain p q where pq: "quotient_of \<bar>x\<bar> = (p, q)"
    by (cases "quotient_of \<bar>x\<bar>")
  have q: "0 < q"
    using quotient_of_denom_pos[OF pq] .
  have x: "\<bar>x\<bar> = of_int p / of_int q"
    using quotient_of_div[OF pq] .
  have "0 < \<bar>x\<bar>"
    using assms by simp
  then have p: "0 < p"
    using q unfolding x by (simp add: zero_less_divide_iff)
  define d where "d = bitlen p - bitlen q"
  have e: "binary_exponent x = (if pow2 d \<le> \<bar>x\<bar> then d else d - 1)"
    by (simp add: binary_exponent_def pq d_def Let_def)
  note bp = bitlen_pow2_bounds[OF p]
  note bq = bitlen_pow2_bounds[OF q]
  have qpos: "(0 :: rat) < of_int q"
    using q by simp
  have lo: "pow2 (d - 1) \<le> \<bar>x\<bar>"
  proof -
    have "pow2 (d - 1) * of_int q \<le> pow2 (d - 1) * pow2 (bitlen q)"
      using bq(2) pow2_pos[of "d - 1"] by (simp add: less_imp_le)
    also have "\<dots> = pow2 (bitlen p - 1)"
      unfolding pow2_add[symmetric] d_def by simp
    also have "\<dots> \<le> of_int p"
      using bp(1) .
    finally show ?thesis
      unfolding x using qpos by (simp add: pos_le_divide_eq)
  qed
  have hi: "\<bar>x\<bar> < pow2 (d + 1)"
  proof -
    have "of_int p < pow2 (bitlen p)"
      using bp(2) .
    also have "\<dots> = pow2 (d + 1) * pow2 (bitlen q - 1)"
      unfolding pow2_add[symmetric] d_def by simp
    also have "\<dots> \<le> pow2 (d + 1) * of_int q"
      using bq(1) pow2_pos[of "d + 1"] by simp
    finally show ?thesis
      unfolding x using qpos by (simp add: pos_divide_less_eq)
  qed
  show "pow2 (binary_exponent x) \<le> \<bar>x\<bar>"
    using lo by (simp add: e)
  show "\<bar>x\<bar> < pow2 (binary_exponent x + 1)"
    using hi by (simp add: e not_le)
qed

lemma double_of_nearest:
  assumes "x \<noteq> 0"
  shows "\<exists>m :: int. double_of x = of_int m * pow2 (max (binary_exponent x) (- 1022) - 52)
     \<and> \<bar>m\<bar> \<le> 2 ^ 53
     \<and> \<bar>double_of x - x\<bar> \<le> pow2 (max (binary_exponent x) (- 1022) - 52) / 2
     \<and> (\<bar>double_of x - x\<bar> = pow2 (max (binary_exponent x) (- 1022) - 52) / 2 \<longrightarrow> even m)"
proof -
  define e where "e = max (binary_exponent x) (- 1022)"
  define u where "u = pow2 (e - 52)"
  define m where "m = round_half_even (x / u)"
  have u: "0 < u"
    by (simp add: u_def pow2_pos)
  have d: "double_of x = of_int m * u"
    using assms by (simp add: double_of_def Let_def u_def m_def e_def)
  have "double_of x - x = (of_int m - x / u) * u"
    using u by (simp add: d field_simps)
  then have a: "\<bar>double_of x - x\<bar> = \<bar>of_int m - x / u\<bar> * u"
    using u by (simp add: abs_mult)
  have n: "\<bar>of_int m - x / u\<bar> \<le> 1 / 2"
    unfolding m_def by (rule round_half_even_near)
  have t: "even m" if "\<bar>of_int m - x / u\<bar> = 1 / 2"
    using that unfolding m_def by (rule round_half_even_tie)
  have 1: "\<bar>double_of x - x\<bar> \<le> u / 2"
    unfolding a using n u by (simp add: field_simps)
  have 2: "even m" if "\<bar>double_of x - x\<bar> = u / 2"
  proof -
    have "\<bar>of_int m - x / u\<bar> * u = (1 / 2) * u"
      using that unfolding a by simp
    then have "\<bar>of_int m - x / u\<bar> = 1 / 2"
      using u by (simp only: mult_cancel_right) simp
    then show ?thesis
      by (rule t)
  qed
  have 3: "\<bar>m\<bar> \<le> 2 ^ 53"
  proof -
    have "\<bar>x\<bar> < pow2 (binary_exponent x + 1)"
      using binary_exponent_bounds(2)[OF assms] .
    also have "\<dots> \<le> pow2 (e + 1)"
      by (rule pow2_mono) (simp add: e_def)
    also have "\<dots> = pow2 53 * u"
      unfolding u_def pow2_add[symmetric] by (simp add: add.commute)
    finally have "\<bar>x\<bar> / u < pow2 53"
      using u by (simp add: pos_divide_less_eq)
    then have "\<bar>x / u\<bar> < 2 ^ 53"
      using u by (simp add: pow2_def)
    then have "\<bar>(of_int m :: rat)\<bar> < 2 ^ 53 + 1 / 2"
      using n by linarith
    then have "(of_int \<bar>m\<bar> :: rat) < of_int (2 ^ 53 + 1)"
      by simp
    then have "\<bar>m\<bar> < 2 ^ 53 + 1"
      by (simp only: of_int_less_iff)
    then show ?thesis
      by simp
  qed
  show ?thesis
    using d 1 2 3 unfolding u_def e_def by blast
qed

lemma seconds_to_minutes_number:
  "seconds_to_minutes (PInt n) =
     (if out_of_range (double_of (of_int n / 60)) then Inl OverflowError
      else Inr (Some (py_round2 (Finite (double_of (of_int n / 60))))))"
  "seconds_to_minutes (PFloat x) = Inr (Some (py_round2 (float_div_60 x)))"
  by (simp_all add: seconds_to_minutes_def int_truediv_60_def Let_def)

lemma double_of_two_power:
  assumes "52 \<le> k"
  shows "double_of (2 ^ k) = 2 ^ k"
proof -
  have q: "quotient_of \<bar>2 ^ k :: rat\<bar> = (2 ^ k, 1)"
    using quotient_of_int[of "2 ^ k"] by (simp add: Rat.of_int_def)
  have b1: "bitlen 1 = 1"
    by (subst compute_bitlen) simp
  have b: "bitlen (2 ^ k) = int k + 1"
    using bitlen_pow2[of 1 k] b1 by simp
  have e: "binary_exponent (2 ^ k) = int k"
    unfolding binary_exponent_def q by (simp add: b b1 pow2_def)
  have u: "pow2 (int k - 52) = 2 ^ (k - 52)"
    using assms by (simp add: pow2_def nat_diff_distrib)
  have d: "(2 ^ k :: rat) / 2 ^ (k - 52) = 2 ^ 52"
    using assms by (simp add: power_diff)
  have f: "\<lfloor>2 ^ 52 :: rat\<rfloor> = 2 ^ 52"
    using floor_of_int[of "2 ^ 52", where ?'a = rat] by simp
  have r: "round_half_even (2 ^ 52) = 2 ^ 52"
    unfolding round_half_even_def Let_def f by simp
  have m: "(of_int (2 ^ 52) :: rat) * 2 ^ (k - 52) = 2 ^ k"
    using assms power_add[of "2 :: rat" 52 "k - 52"] by simp
  have ne: "(2 ^ k :: rat) \<noteq> 0"
    by simp
  have mx: "max (int k) (- 1022) = int k"
    by simp
  show ?thesis
    unfolding double_of_def e Let_def mx u d r using ne m by simp
qed

lemma huge_int_overflows:
  assumes "1024 \<le> k"
  shows "seconds_to_minutes (PInt (60 * 2 ^ k)) = Inl OverflowError"
proof -
  have q: "(of_int (60 * 2 ^ k) :: rat) / 60 = 2 ^ k"
    by simp
  have d: "double_of (2 ^ k) = 2 ^ k"
    using assms by (intro double_of_two_power) simp
  have "(2 :: rat) ^ 1024 \<le> 2 ^ k"
    using assms by (intro power_increasing) simp_all
  then have o: "out_of_range (2 ^ k)"
    unfolding out_of_range_def by simp
  show ?thesis
    unfolding seconds_to_minutes_def truediv_60.simps int_truediv_60_def q d Let_def
    using o by simp
qed

text \<open>Closed values, computed.\<close>

lemma minutes_of_120_and_90:
  "seconds_to_minutes (PInt 120) = Inr (Some (Finite 2))"
  "seconds_to_minutes (PFloat (Finite 120)) = Inr (Some (Finite 2))"
  "seconds_to_minutes (PInt 90) = Inr (Some (Finite (3 / 2)))"
  "seconds_to_minutes (PFloat (Finite 90)) = Inr (Some (Finite (3 / 2)))"
  by code_simp+

lemma double_values:
  "double_of (1 / 40) = 3602879701896397 / 144115188075855872"
  "double_of (3 / 100) = 1080863910568919 / 36028797018963968"
  "double_of (3 / 40) = 5404319552844595 / 72057594037927936"
  "double_of (7 / 100) = 1261007895663739 / 18014398509481984"
  "double_of (1 / 8) = 1 / 8"
  "double_of (12 / 100) = 1080863910568919 / 9007199254740992"
  "double_of (2837 / 100) = 7985445089281311 / 281474976710656"
  "double_of (811 / 10) = 2853452576404275 / 35184372088832"
  by code_simp+

text \<open>
  Claim C10. \<open>seconds_to_minutes\<close> returns \<open>None\<close> on \<open>None\<close>, 2.0 on 120 and 1.5 on 90
  (as an \<open>int\<close> or as a \<open>float\<close>), and on every other value it is \<open>seconds / 60\<close>
  followed by \<open>round(minutes, 2)\<close>: for an \<open>int\<close> the correctly rounded quotient, or
  \<open>OverflowError\<close> beyond the doubles; for a \<open>float\<close> the quotient of doubles. The
  rounding takes the value of the double \<open>minutes\<close> to a whole number of hundredths at
  most half a hundredth away, the even one at a tie, and returns the double nearest to
  it. Rounding to a double is rounding to nearest, ties to even, in the binade of the
  argument (from \<open>2\<^sup>-\<^sup>1\<^sup>0\<^sup>2\<^sup>2\<close> downwards, in steps of \<open>2\<^sup>-\<^sup>1\<^sup>0\<^sup>7\<^sup>4\<close>).
\<close>

theorem seconds_to_minutes_spec:
  "seconds_to_minutes PNone = Inr None
   \<and> seconds_to_minutes (PInt 120) = Inr (Some (Finite 2))
   \<and> seconds_to_minutes (PFloat (Finite 120)) = Inr (Some (Finite 2))
   \<and> seconds_to_minutes (PInt 90) = Inr (Some (Finite (3 / 2)))
   \<and> seconds_to_minutes (PFloat (Finite 90)) = Inr (Some (Finite (3 / 2)))
   \<and> (\<forall>seconds. seconds \<noteq> PNone \<longrightarrow>
         seconds_to_minutes seconds =
           (case truediv_60 seconds of
              Inl e \<Rightarrow> Inl e
            | Inr minutes \<Rightarrow> Inr (Some (py_round2 minutes))))
   \<and> (\<forall>n. seconds_to_minutes (PInt n) =
         (if out_of_range (double_of (of_int n / 60)) then Inl OverflowError
          else Inr (Some (py_round2 (Finite (double_of (of_int n / 60)))))))
   \<and> (\<forall>x. seconds_to_minutes (PFloat x) = Inr (Some (py_round2 (float_div_60 x))))
   \<and> (\<forall>x. \<exists>h. py_round2 (Finite x) =
               (if h = 0 \<and> x < 0 then NegZero else Finite (double_of (of_int h / 100)))
            \<and> \<bar>of_int h - x * 100\<bar> \<le> 1 / 2
            \<and> (\<bar>of_int h - x * 100\<bar> = 1 / 2 \<longrightarrow> even h))
   \<and> (\<forall>x. x \<noteq> 0 \<longrightarrow>
         pow2 (binary_exponent x) \<le> \<bar>x\<bar> \<and> \<bar>x\<bar> < pow2 (binary_exponent x + 1))
   \<and> (\<forall>x. x \<noteq> 0 \<longrightarrow>
         (\<exists>m :: int.
            double_of x = of_int m * pow2 (max (binary_exponent x) (- 1022) - 52)
            \<and> \<bar>m\<bar> \<le> 2 ^ 53
            \<and> \<bar>double_of x - x\<bar> \<le> pow2 (max (binary_exponent x) (- 1022) - 52) / 2
            \<and> (\<bar>double_of x - x\<bar> = pow2 (max (binary_exponent x) (- 1022) - 52) / 2 \<longrightarrow>
                 even m)))"
proof -
  have r: "\<exists>h. py_round2 (Finite x) =
               (if h = 0 \<and> x < 0 then NegZero else Finite (double_of (of_int h / 100)))
            \<and> \<bar>of_int h - x * 100\<bar> \<le> 1 / 2
            \<and> (\<bar>of_int h - x * 100\<bar> = 1 / 2 \<longrightarrow> even h)" for x
    using round_half_even_near[of "x * 100"] round_half_even_tie[of "x * 100"]
    by (intro exI[of _ "round_half_even (x * 100)"]) (simp add: Let_def)
  have g: "seconds_to_minutes seconds =
           (case truediv_60 seconds of
              Inl e \<Rightarrow> Inl e
            | Inr minutes \<Rightarrow> Inr (Some (py_round2 minutes)))" if "seconds \<noteq> PNone" for seconds
    using that by (simp add: seconds_to_minutes_def)
  have n: "seconds_to_minutes PNone = Inr None"
    by (simp add: seconds_to_minutes_def)
  have c: "seconds_to_minutes PNone = Inr None
   \<and> seconds_to_minutes (PInt 120) = Inr (Some (Finite 2))
   \<and> seconds_to_minutes (PFloat (Finite 120)) = Inr (Some (Finite 2))
   \<and> seconds_to_minutes (PInt 90) = Inr (Some (Finite (3 / 2)))
   \<and> seconds_to_minutes (PFloat (Finite 90)) = Inr (Some (Finite (3 / 2)))"
    using n minutes_of_120_and_90 by simp
  have b: "\<forall>x. x \<noteq> 0 \<longrightarrow>
         pow2 (binary_exponent x) \<le> \<bar>x\<bar> \<and> \<bar>x\<bar> < pow2 (binary_exponent x + 1)"
    using binary_exponent_bounds by blast
  have d: "\<forall>x. x \<noteq> 0 \<longrightarrow>
         (\<exists>m :: int.
            double_of x = of_int m * pow2 (max (binary_exponent x) (- 1022) - 52)
            \<and> \<bar>m\<bar> \<le> 2 ^ 53
            \<and> \<bar>double_of x - x\<bar> \<le> pow2 (max (binary_exponent x) (- 1022) - 52) / 2
            \<and> (\<bar>double_of x - x\<bar> = pow2 (max (binary_exponent x) (- 1022) - 52) / 2 \<longrightarrow>
                 even m))"
    using double_of_nearest by blast
  show ?thesis
    using c g r seconds_to_minutes_number b d by blast
qed

lemma minutes_at_ties:
  "seconds_to_minutes (PFloat (Finite (3 / 2))) = Inr (Some (Finite (double_of (3 / 100))))"
  "seconds_to_minutes (PFloat (Finite (9 / 2))) = Inr (Some (Finite (double_of (7 / 100))))"
  "seconds_to_minutes (PFloat (Finite (15 / 2))) = Inr (Some (Finite (double_of (12 / 100))))"
  "seconds_to_minutes (PInt 100) = Inr (Some (Finite (double_of (167 / 100))))"
  "seconds_to_minutes (PBool True) = Inr (Some (Finite (double_of (2 / 100))))"
  "seconds_to_minutes (PFloat (Finite (- 1 / 10))) = Inr (Some NegZero)"
  "seconds_to_minutes (PFloat NaN) = Inr (Some NaN)"
  "seconds_to_minutes (PStr ''120'') = Inl TypeError"
  by code_simp+

text \<open>
  1.5 seconds give 0.03 and 4.5 seconds give 0.07, since the doubles next to 0.025 and
  0.075 are not ties (the first lies above 0.025, the second below 0.075); 7.5 seconds
  give 0.125 exactly, a tie, and 0.12. The doubles are given as fractions.
\<close>

theorem seconds_to_minutes_spec_witness:
  "seconds_to_minutes (PFloat (Finite (3 / 2))) = Inr (Some (Finite (double_of (3 / 100))))
   \<and> seconds_to_minutes (PFloat (Finite (9 / 2))) = Inr (Some (Finite (double_of (7 / 100))))
   \<and> seconds_to_minutes (PFloat (Finite (15 / 2))) = Inr (Some (Finite (double_of (12 / 100))))
   \<and> seconds_to_minutes (PInt 100) = Inr (Some (Finite (double_of (167 / 100))))
   \<and> seconds_to_minutes (PBool True) = Inr (Some (Finite (double_of (2 / 100))))
   \<and> seconds_to_minutes (PFloat (Finite (- 1 / 10))) = Inr (Some NegZero)
   \<and> seconds_to_minutes (PFloat NaN) = Inr (Some NaN)
   \<and> seconds_to_minutes (PInt (60 * 2 ^ 1024)) = Inl OverflowError
   \<and> seconds_to_minutes (PStr ''120'') = Inl TypeError
   \<and> truediv_60 (PFloat (Finite (3 / 2))) = Inr (Finite (double_of (1 / 40)))
   \<and> py_round2 (Finite (double_of (1 / 40))) = Finite (double_of (3 / 100))
   \<and> double_of (1 / 40) = 3602879701896397 / 144115188075855872
   \<and> double_of (3 / 100) = 1080863910568919 / 36028797018963968
   \<and> double_of (3 / 40) = 5404319552844595 / 72057594037927936
   \<and> double_of (7 / 100) = 1261007895663739 / 18014398509481984
   \<and> double_of (1 / 8) = 1 / 8
   \<and> double_of (12 / 100) = 1080863910568919 / 9007199254740992"
proof -
  note t = seconds_to_minutes_spec[THEN conjunct2, THEN conjunct2, THEN conjunct2,
      THEN conjunct2, THEN conjunct2, THEN conjunct1, rule_format]
  have s: "seconds_to_minutes (PFloat (Finite (3 / 2))) =
      (case truediv_60 (PFloat (Finite (3 / 2))) of
         Inl e \<Rightarrow> Inl e | Inr minutes \<Rightarrow> Inr (Some (py_round2 minutes)))"
    by (rule t) simp
  have d: "truediv_60 (PFloat (Finite (3 / 2))) = Inr (Finite (double_of (1 / 40)))"
    by code_simp
  have p: "py_round2 (Finite (double_of (1 / 40))) = Finite (double_of (3 / 100))"
    using s d minutes_at_ties(1) by simp
  have m: "seconds_to_minutes (PFloat (Finite (3 / 2))) = Inr (Some (Finite (double_of (3 / 100))))
   \<and> seconds_to_minutes (PFloat (Finite (9 / 2))) = Inr (Some (Finite (double_of (7 / 100))))
   \<and> seconds_to_minutes (PFloat (Finite (15 / 2))) = Inr (Some (Finite (double_of (12 / 100))))
   \<and> seconds_to_minutes (PInt 100) = Inr (Some (Finite (double_of (167 / 100))))
   \<and> seconds_to_minutes (PBool True) = Inr (Some (Finite (double_of (2 / 100))))
   \<and> seconds_to_minutes (PFloat (Finite (- 1 / 10))) = Inr (Some NegZero)
   \<and> seconds_to_minutes (PFloat NaN) = Inr (Some NaN)
   \<and> seconds_to_minutes (PInt (60 * 2 ^ 1024)) = Inl OverflowError
   \<and> seconds_to_minutes (PStr ''120'') = Inl TypeError"
    using minutes_at_ties huge_int_overflows[of 1024] by simp
  have v: "double_of (1 / 40) = 3602879701896397 / 144115188075855872
   \<and> double_of (3 / 100) = 1080863910568919 / 36028797018963968
   \<and> double_of (3 / 40) = 5404319552844595 / 72057594037927936
   \<and> double_of (7 / 100) = 1261007895663739 / 18014398509481984
   \<and> double_of (1 / 8) = 1 / 8
   \<and> double_of (12 / 100) = 1080863910568919 / 9007199254740992"
    using double_values by blast
  show ?thesis
    using m d p v by blast
qed

section \<open>Properties of get\_date\_range\_for\_month\<close>

lemma pad2_one: "pad2 1 = ''01''"
  by code_simp

lemma pad2_Suc_0: "pad2 (Suc 0) = ''01''"
  using pad2_one by simp

lemma month_map_cases:
  assumes "map_of month_map month_name = Some k"
  shows "k \<in> {1, 2, 3, 4, 5, 6, 7, 8, 9, 10, 11, 12}"
  using assms by (auto simp: month_map_def split: if_splits)

lemma isleap_dvd: "isleap year = (4 dvd year \<and> (\<not> 100 dvd year \<or> 400 dvd year))"
  by (simp add: isleap_def dvd_eq_mod_eq_0)

lemma monthrange_days_standard:
  assumes "k \<in> {1, 2, 3, 4, 5, 6, 7, 8, 9, 10, 11, 12}"
  shows "monthrange_days year k =
     (if k = 2 then (if 4 dvd year \<and> (\<not> 100 dvd year \<or> 400 dvd year) then 29 else 28)
      else if k \<in> {4, 6, 9, 11} then 30 else 31)"
  using assms unfolding monthrange_days_def mdays_def isleap_dvd
  by (elim insertE emptyE) simp_all

lemma mk_datetime_ok:
  assumes "1 \<le> y" "y \<le> 9999" "k \<in> {1, 2, 3, 4, 5, 6, 7, 8, 9, 10, 11, 12}"
    "1 \<le> d" "d \<le> monthrange_days y k" "hh < 24" "mm < 60" "ss < 60"
  shows "mk_datetime y k d hh mm ss =
     Inr \<lparr>dt_year = y, dt_month = k, dt_day = d, dt_hour = hh, dt_minute = mm, dt_second = ss\<rparr>"
  using assms unfolding mk_datetime_def by auto

lemma monthrange_days_pos:
  assumes "k \<in> {1, 2, 3, 4, 5, 6, 7, 8, 9, 10, 11, 12}"
  shows "1 \<le> monthrange_days year k"
  using assms by (auto simp: monthrange_days_def mdays_def)

lemma date_range_by_number:
  assumes k: "month_num_of month_name = k" "k \<in> {1, 2, 3, 4, 5, 6, 7, 8, 9, 10, 11, 12}"
    and y: "1 \<le> year" "year \<le> 9999"
  shows "get_date_range_for_month month_name year =
     Inr (show_nat (nat year) @ ''-'' @ pad2 k @ ''-01T00:00:00.000000Z'',
          show_nat (nat year) @ ''-'' @ pad2 k @ ''-'' @ pad2 (monthrange_days year k)
            @ ''T00:00:00.000000Z'')"
proof -
  have f: "first_day_of year k =
      Inr \<lparr>dt_year = year, dt_month = k, dt_day = 1, dt_hour = 0, dt_minute = 0, dt_second = 0\<rparr>"
    unfolding first_day_of_def
    using k(2) y monthrange_days_pos[OF k(2), of year] by (intro mk_datetime_ok) auto
  have l: "last_day_of year k =
      Inr \<lparr>dt_year = year, dt_month = k, dt_day = monthrange_days year k,
           dt_hour = 23, dt_minute = 59, dt_second = 59\<rparr>"
    unfolding last_day_of_def
    using k(2) y monthrange_days_pos[OF k(2), of year] by (intro mk_datetime_ok) auto
  show ?thesis
    unfolding get_date_range_for_month_def Let_def k(1) f l
    by (simp add: strftime_midnight_def pad2_Suc_0)
qed

text \<open>
  Claim C4. For a recognized month code (with number \<open>k\<close> in \<open>month_map\<close>) and a year
  that \<open>datetime\<close> accepts, the start is the first day of the month at
  \<open>00:00:00.000000Z\<close>. The end carries the month's last day by the usual rules (28 or
  29 days for February, 30 for April, June, September and November, 31 otherwise),
  also at \<open>00:00:00.000000Z\<close>, although \<open>last_day\<close> itself is that day at 23:59:59.
\<close>

theorem month_range_recognized:
  assumes "map_of month_map month_name = Some k" and "1 \<le> year" and "year \<le> 9999"
  shows "get_date_range_for_month month_name year =
           Inr (show_nat (nat year) @ ''-'' @ pad2 k @ ''-01T00:00:00.000000Z'',
                show_nat (nat year) @ ''-'' @ pad2 k @ ''-''
                  @ pad2 (if k = 2
                          then (if 4 dvd year \<and> (\<not> 100 dvd year \<or> 400 dvd year) then 29 else 28)
                          else if k \<in> {4, 6, 9, 11} then 30 else 31)
                  @ ''T00:00:00.000000Z'')
         \<and> last_day_of year k =
           Inr \<lparr>dt_year = year, dt_month = k,
                dt_day = (if k = 2
                          then (if 4 dvd year \<and> (\<not> 100 dvd year \<or> 400 dvd year) then 29 else 28)
                          else if k \<in> {4, 6, 9, 11} then 30 else 31),
                dt_hour = 23, dt_minute = 59, dt_second = 59\<rparr>"
proof -
  have k: "k \<in> {1, 2, 3, 4, 5, 6, 7, 8, 9, 10, 11, 12}"
    using assms(1) by (rule month_map_cases)
  have n: "month_num_of month_name = k"
    using assms(1) by (simp add: month_num_of_def)
  have d: "monthrange_days year k =
     (if k = 2 then (if 4 dvd year \<and> (\<not> 100 dvd year \<or> 400 dvd year) then 29 else 28)
      else if k \<in> {4, 6, 9, 11} then 30 else 31)"
    using k by (rule monthrange_days_standard)
  have r: "get_date_range_for_month month_name year =
     Inr (show_nat (nat year) @ ''-'' @ pad2 k @ ''-01T00:00:00.000000Z'',
          show_nat (nat year) @ ''-'' @ pad2 k @ ''-'' @ pad2 (monthrange_days year k)
            @ ''T00:00:00.000000Z'')"
    using n k assms(2,3) by (rule date_range_by_number)
  have l: "last_day_of year k =
      Inr \<lparr>dt_year = year, dt_month = k, dt_day = monthrange_days year k,
           dt_hour = 23, dt_minute = 59, dt_second = 59\<rparr>"
    unfolding last_day_of_def
    using k assms(2,3) monthrange_days_pos[OF k, of year] by (intro mk_datetime_ok) auto
  show ?thesis
    using r l unfolding d by simp
qed

text \<open>February 2024: a leap year, 29 days.\<close>

theorem month_range_recognized_witness:
  "map_of month_map ''Feb'' = Some 2
   \<and> get_date_range_for_month ''Feb'' 2024 =
       Inr (''2024-02-01T00:00:00.000000Z'', ''2024-02-29T00:00:00.000000Z'')
   \<and> last_day_of 2024 2 =
       Inr \<lparr>dt_year = 2024, dt_month = 2, dt_day = 29,
            dt_hour = 23, dt_minute = 59, dt_second = 59\<rparr>"
proof -
  have m: "map_of month_map ''Feb'' = Some 2"
    by (simp add: month_map_def)
  have s: "show_nat (nat 2024) = ''2024''" "pad2 2 = ''02''" "pad2 29 = ''29''"
    by code_simp+
  show ?thesis
    using month_range_recognized[OF m, of 2024] m s by simp
qed

text \<open>
  Claim C9. A month code that is not one of the twelve keys of \<open>month_map\<close> gives
  what \<open>Jan\<close> gives for the same year; for a year that \<open>datetime\<close> accepts this is
  the range of January, not a failure.
\<close>

theorem month_range_unrecognized:
  assumes "month_name \<notin> set (map fst month_map)"
  shows "get_date_range_for_month month_name year = get_date_range_for_month ''Jan'' year
         \<and> (1 \<le> year \<and> year \<le> 9999 \<longrightarrow>
              get_date_range_for_month month_name year =
                Inr (show_nat (nat year) @ ''-01-01T00:00:00.000000Z'',
                     show_nat (nat year) @ ''-01-31T00:00:00.000000Z''))"
proof -
  have none: "map_of month_map month_name = None"
    using assms by (simp add: map_of_eq_None_iff)
  then have n: "month_num_of month_name = 1"
    by (simp add: month_num_of_def)
  have j: "month_num_of ''Jan'' = 1"
    by (simp add: month_num_of_def month_map_def)
  have same: "get_date_range_for_month month_name year = get_date_range_for_month ''Jan'' year"
    unfolding get_date_range_for_month_def n j ..
  have days: "monthrange_days year 1 = 31"
    by (simp add: monthrange_days_def mdays_def)
  have p: "pad2 31 = ''31''"
    by code_simp
  have "get_date_range_for_month month_name year =
          Inr (show_nat (nat year) @ ''-01-01T00:00:00.000000Z'',
               show_nat (nat year) @ ''-01-31T00:00:00.000000Z'')"
    if "1 \<le> year" "year \<le> 9999"
    using date_range_by_number[OF n _ that] days by (simp add: pad2_Suc_0 p)
  with same show ?thesis
    by blast
qed

text \<open>The codes \<open>January\<close> and \<open>jan\<close> in 2025.\<close>

theorem month_range_unrecognized_witness:
  "''January'' \<notin> set (map fst month_map)
   \<and> get_date_range_for_month ''January'' 2025 =
       Inr (''2025-01-01T00:00:00.000000Z'', ''2025-01-31T00:00:00.000000Z'')
   \<and> get_date_range_for_month ''jan'' 2025 = get_date_range_for_month ''Jan'' 2025"
proof -
  have a: "''January'' \<notin> set (map fst month_map)" and b: "''jan'' \<notin> set (map fst month_map)"
    by (simp_all add: month_map_def)
  have s: "show_nat (nat 2025) = ''2025''"
    by code_simp
  have "get_date_range_for_month ''January'' 2025 =
          Inr (''2025-01-01T00:00:00.000000Z'', ''2025-01-31T00:00:00.000000Z'')"
    using month_range_unrecognized[OF a, of 2025, THEN conjunct2] s by simp
  moreover have "get_date_range_for_month ''jan'' 2025 = get_date_range_for_month ''Jan'' 2025"
    using month_range_unrecognized[OF b, of 2025] by blast
  ultimately show ?thesis
    using a by blast
qed

section \<open>Properties of make\_api\_request and process\_row\<close>

lemma io_only_refl: "io_only w w"
  by (simp add: io_only_def)

lemma io_only_trans: "io_only w w1 \<Longrightarrow> io_only w1 w2 \<Longrightarrow> io_only w w2"
  by (auto simp: io_only_def)

lemma io_only_sleep: "py_sleep secs w = Inr w' \<Longrightarrow> io_only w w'"
  by (auto simp: py_sleep_def emit_def io_only_def split: if_splits)

lemma io_only_post: "requests_post E url headers pl v w = (out, w') \<Longrightarrow> io_only w w'"
  by (auto simp: requests_post_def emit_def io_only_def)

lemma io_only_uniform: "uniform E a b w = (x, w') \<Longrightarrow> io_only w w'"
  by (auto simp: uniform_def io_only_def)

lemma io_only_randint: "randint E a b w = (x, w') \<Longrightarrow> io_only w w'"
  by (auto simp: randint_def io_only_def)

lemma io_only_on_timeout: "on_timeout rc rd w = (r, w') \<Longrightarrow> io_only w w'"
  by (auto simp: on_timeout_def Let_def io_only_refl split: if_splits sum.splits
      dest: io_only_sleep)

lemma io_only_on_connection_error: "on_connection_error E rc rd w = (r, w') \<Longrightarrow> io_only w w'"
  by (auto simp: on_connection_error_def Let_def io_only_refl
      split: if_splits sum.splits prod.splits
      dest: io_only_sleep io_only_uniform intro: io_only_trans)

lemma io_only_on_request_exception:
  "on_request_exception E e rc rd w = (r, w') \<Longrightarrow> io_only w w'"
  by (auto simp: on_request_exception_def Let_def io_only_refl
      split: if_splits sum.splits prod.splits
      dest: io_only_sleep io_only_uniform intro: io_only_trans)

lemma io_only_attempt:
  assumes "attempt E url headers pl dl v rc rd w = (r, w')"
  shows "io_only w w'"
proof (cases "py_sleep dl w")
  case (Inl e)
  with assms show ?thesis
    by (simp add: attempt_def io_only_refl)
next
  case (Inr w1)
  obtain out w2 where p: "requests_post E url headers pl v w1 = (out, w2)"
    by (cases "requests_post E url headers pl v w1")
  have a: "io_only w w2"
    using io_only_sleep[OF Inr] io_only_post[OF p] by (rule io_only_trans)
  have "io_only w2 w'"
    using assms Inr p
    by (auto simp: attempt_def io_only_refl
        split: http_outcome.splits post_exc.splits if_splits sum.splits option.splits
        dest: io_only_on_timeout io_only_on_connection_error io_only_on_request_exception
          io_only_sleep)
  with a show ?thesis
    by (rule io_only_trans)
qed

lemma io_only_api_loop:
  "api_loop E url headers pl dl v rc rd w = (r, w') \<Longrightarrow> io_only w w'"
proof (induction E url headers pl dl v rc rd w rule: api_loop.induct)
  case (1 E url headers pl dl v rc rd w)
  show ?case
  proof (cases "rc < max_retries")
    case False
    with "1.prems" show ?thesis
      by (simp add: api_loop.simps io_only_refl)
  next
    case True
    obtain ar w1 where a: "attempt E url headers pl dl v rc rd w = (ar, w1)"
      by (cases "attempt E url headers pl dl v rc rd w")
    have s: "io_only w w1"
      using a by (rule io_only_attempt)
    show ?thesis
    proof (cases ar)
      case (Returned x)
      with "1.prems" True a s show ?thesis
        by (simp add: api_loop.simps)
    next
      case (Raising e)
      with "1.prems" True a s show ?thesis
        by (simp add: api_loop.simps)
    next
      case (Again rc' rd')
      with "1.prems" True a have "api_loop E url headers pl dl v rc' rd' w1 = (r, w')"
        by (simp add: api_loop.simps)
      then have "io_only w1 w'"
        using "1.IH" True a Again by simp
      with s show ?thesis
        by (rule io_only_trans)
    qed
  qed
qed

lemma io_only_make_api_request:
  "make_api_request E url headers pl mock dl v w = (r, w') \<Longrightarrow> io_only w w'"
  by (auto simp: make_api_request_def split: if_splits prod.splits
      dest: io_only_api_loop io_only_randint intro: io_only_trans)


lemma py_sleep_ok: "0 \<le> secs \<Longrightarrow> py_sleep secs w = Inr (emit (Sleep secs) w)"
  by (simp add: py_sleep_def)

lemma emit_fields [simp]:
  "posts (emit ev w) = posts w" "disk (emit ev w) = disk w" "draws (emit ev w) = draws w"
  "trace (emit ev w) = trace w @ [ev]"
  by (simp_all add: emit_def)

lemma uniform_0_2:
  "uniform E 0 2 w = (j, w') \<Longrightarrow> 0 \<le> j \<and> j < 2 \<and> w' = w\<lparr>draws := draws w + 1\<rparr>"
proof -
  assume u: "uniform E 0 2 w = (j, w')"
  have "(of_nat (rnd E (draws w) mod 2 ^ 53) :: rat) < of_nat (2 ^ 53)"
    unfolding of_nat_less_iff by simp
  then have "(of_nat (rnd E (draws w) mod 2 ^ 53) :: rat) / 2 ^ 53 < 1"
    by simp
  moreover have "(0::rat) \<le> of_nat (rnd E (draws w) mod 2 ^ 53) / 2 ^ 53"
    by simp
  ultimately show ?thesis
    using u by (auto simp: uniform_def)
qed

text \<open>What one pass of the loop does on an outcome that is retried.\<close>

lemma attempt_retried:
  assumes d: "0 \<le> dl" and rd: "0 \<le> rd" and f: "retried_failure (net E (posts w))"
  shows "\<exists>r w'. attempt E url headers pl dl v rc rd w = (r, w')
           \<and> posts w' = posts w + 1
           \<and> (if rc + 1 < max_retries then r = Again (rc + 1) (min (rd * 2) 120)
               else r = Again (rc + 1) (min (rd * 2) 120)
                    \<or> (\<exists>e. r = Raising e \<and> is_request_exception e))"
proof (cases "net E (posts w)")
  case (Raises x)
  show ?thesis
  proof (cases x)
    case ReadTimeout
    with Raises d rd show ?thesis
      by (simp add: attempt_def py_sleep_ok requests_post_def on_timeout_def Let_def)
  next
    case ConnectTimeout
    with Raises d rd show ?thesis
      by (simp add: attempt_def py_sleep_ok requests_post_def on_timeout_def Let_def)
  next
    case ConnectionError
    obtain j wj where u: "uniform E 0 2 (emit (Post pl) (emit (Sleep dl) w\<lparr>posts := posts w + 1\<rparr>)) = (j, wj)"
      by (cases "uniform E 0 2 (emit (Post pl) (emit (Sleep dl) w\<lparr>posts := posts w + 1\<rparr>))")
    from uniform_0_2[OF u] have "0 \<le> of_int rd + j" and "posts wj = posts w + 1"
      using rd by simp_all
    with ConnectionError Raises d u show ?thesis
      by (simp add: attempt_def py_sleep_ok requests_post_def on_connection_error_def Let_def)
  next
    case OtherRequestException
    obtain j wj where u: "uniform E 0 2 (emit (Post pl) (emit (Sleep dl) w\<lparr>posts := posts w + 1\<rparr>)) = (j, wj)"
      by (cases "uniform E 0 2 (emit (Post pl) (emit (Sleep dl) w\<lparr>posts := posts w + 1\<rparr>))")
    from uniform_0_2[OF u] have "0 \<le> of_int rd + j" and "posts wj = posts w + 1"
      using rd by simp_all
    with OtherRequestException Raises d u show ?thesis
      by (simp add: attempt_def py_sleep_ok requests_post_def on_request_exception_def Let_def)
  qed
next
  case (Response status ra body)
  obtain j wj where u: "uniform E 0 2 (emit (Post pl) (emit (Sleep dl) w\<lparr>posts := posts w + 1\<rparr>)) = (j, wj)"
    by (cases "uniform E 0 2 (emit (Post pl) (emit (Sleep dl) w\<lparr>posts := posts w + 1\<rparr>))")
  from uniform_0_2[OF u] have j: "0 \<le> of_int rd + j" "posts wj = posts w + 1"
    using rd by simp_all
  show ?thesis
  proof (cases "status = 429")
    case True
    with Response f d rd show ?thesis
      by (cases ra)
         (simp_all add: attempt_def py_sleep_ok requests_post_def)
  next
    case False
    with Response f d u j show ?thesis
      by (auto simp: attempt_def py_sleep_ok requests_post_def on_request_exception_def Let_def)
  qed
qed

lemma attempt_success:
  assumes "0 \<le> dl" and "net E (posts w) = Response status ra (Some body)"
    and "status \<noteq> 429" and "\<not> (400 \<le> status \<and> status < 600)"
  shows "attempt E url headers pl dl v rc rd w =
           (Returned body, emit (Post pl) (emit (Sleep dl) w\<lparr>posts := posts w + 1\<rparr>))"
  using assms by (auto simp: attempt_def py_sleep_ok requests_post_def)

lemma api_loop_all_fail:
  assumes "0 \<le> dl" and "0 \<le> rd" and "rc + n = max_retries"
    and "\<forall>i. i < n \<longrightarrow> retried_failure (net E (posts w + i))"
  shows "\<exists>e w'. api_loop E url headers pl dl v rc rd w = (Inl e, w')
           \<and> is_request_exception e \<and> posts w' = posts w + n"
  using assms
proof (induction n arbitrary: rc rd w)
  case 0
  then show ?case
    by (simp add: api_loop.simps)
next
  case (Suc n)
  have f: "retried_failure (net E (posts w))"
    using Suc.prems(4) by force
  obtain r w1 where a: "attempt E url headers pl dl v rc rd w = (r, w1)"
    and p: "posts w1 = posts w + 1"
    and r: "if rc + 1 < max_retries then r = Again (rc + 1) (min (rd * 2) 120)
            else r = Again (rc + 1) (min (rd * 2) 120)
                 \<or> (\<exists>e. r = Raising e \<and> is_request_exception e)"
    using attempt_retried[OF Suc.prems(1,2) f, of url headers pl v rc] by blast
  have lt: "rc < max_retries"
    using Suc.prems(3) by simp
  have next_fail: "\<forall>i. i < n \<longrightarrow> retried_failure (net E (posts w1 + i))"
  proof (intro allI impI)
    fix i assume "i < n"
    then have "retried_failure (net E (posts w + Suc i))"
      using Suc.prems(4) by blast
    then show "retried_failure (net E (posts w1 + i))"
      by (simp add: p)
  qed
  have ih: "\<exists>e w'. api_loop E url headers pl dl v (rc + 1) (min (rd * 2) 120) w1 = (Inl e, w')
              \<and> is_request_exception e \<and> posts w' = posts w1 + n"
    using Suc.IH[of "min (rd * 2) 120" "rc + 1" w1] Suc.prems(1,2,3) next_fail by simp
  show ?case
  proof (cases "r = Again (rc + 1) (min (rd * 2) 120)")
    case True
    with a lt ih p show ?thesis
      by (subst api_loop.simps) auto
  next
    case False
    with r obtain e where e: "r = Raising e" "is_request_exception e" and last: "\<not> rc + 1 < max_retries"
      by (auto split: if_splits)
    from last Suc.prems(3) have "n = 0"
      by simp
    with a lt e p show ?thesis
      by (subst api_loop.simps) auto
  qed
qed

lemma api_loop_success_after:
  assumes "0 \<le> dl" and "0 \<le> rd" and "rc + k < max_retries"
    and "\<forall>i. i < k \<longrightarrow> retried_failure (net E (posts w + i))"
    and "net E (posts w + k) = Response status ra (Some body)"
    and "status \<noteq> 429" and "\<not> (400 \<le> status \<and> status < 600)"
  shows "\<exists>w'. api_loop E url headers pl dl v rc rd w = (Inr body, w')
           \<and> posts w' = posts w + k + 1"
  using assms
proof (induction k arbitrary: rc rd w)
  case 0
  then have "attempt E url headers pl dl v rc rd w =
           (Returned body, emit (Post pl) (emit (Sleep dl) w\<lparr>posts := posts w + 1\<rparr>))"
    by (intro attempt_success) simp_all
  with 0 show ?case
    by (subst api_loop.simps) simp
next
  case (Suc k)
  have f: "retried_failure (net E (posts w))"
    using Suc.prems(4) by force
  obtain r w1 where a: "attempt E url headers pl dl v rc rd w = (r, w1)"
    and p: "posts w1 = posts w + 1"
    and r: "if rc + 1 < max_retries then r = Again (rc + 1) (min (rd * 2) 120)
            else r = Again (rc + 1) (min (rd * 2) 120)
                 \<or> (\<exists>e. r = Raising e \<and> is_request_exception e)"
    using attempt_retried[OF Suc.prems(1,2) f, of url headers pl v rc] by blast
  have r': "r = Again (rc + 1) (min (rd * 2) 120)"
    using r Suc.prems(3) by simp
  have next_fail: "\<forall>i. i < k \<longrightarrow> retried_failure (net E (posts w1 + i))"
  proof (intro allI impI)
    fix i assume "i < k"
    then have "retried_failure (net E (posts w + Suc i))"
      using Suc.prems(4) by blast
    then show "retried_failure (net E (posts w1 + i))"
      by (simp add: p)
  qed
  have "\<exists>w'. api_loop E url headers pl dl v (rc + 1) (min (rd * 2) 120) w1 = (Inr body, w')
           \<and> posts w' = posts w1 + k + 1"
    using Suc.IH[of "min (rd * 2) 120" "rc + 1" w1] Suc.prems next_fail by (simp add: p)
  with a r' p Suc.prems(3) show ?case
    by (subst api_loop.simps) auto
qed

lemma attempt_429:
  assumes "0 \<le> dl" and "0 \<le> rd" and "net E (posts w) = Response 429 ra body"
    and "usable_retry_after ra"
  shows "attempt E url headers pl dl v rc rd w =
           (Again (rc + 1) (min (rd * 2) 120),
            emit (Sleep (of_int (case ra of RetryAfterInt n \<Rightarrow> n | _ \<Rightarrow> rd)))
              (emit (Post pl) (emit (Sleep dl) w\<lparr>posts := posts w + 1\<rparr>)))"
  using assms by (cases ra) (simp_all add: attempt_def py_sleep_ok requests_post_def)

lemma api_loop_all_429:
  assumes "0 \<le> dl" and "0 \<le> rd" and "rc + n = max_retries"
    and "\<forall>i. i < n \<longrightarrow> (\<exists>ra body. net E (posts w + i) = Response 429 ra body
                                    \<and> usable_retry_after ra)"
  shows "\<exists>w'. api_loop E url headers pl dl v rc rd w =
                 (Inl (RequestException ''Failed after 7 retries''), w')
           \<and> posts w' = posts w + n"
  using assms
proof (induction n arbitrary: rc rd w)
  case 0
  then show ?case
    by (simp add: api_loop.simps)
next
  case (Suc n)
  obtain ra body where o: "net E (posts w) = Response 429 ra body" "usable_retry_after ra"
    using Suc.prems(4) by force
  define w1 where "w1 = emit (Sleep (of_int (case ra of RetryAfterInt n \<Rightarrow> n | _ \<Rightarrow> rd)))
              (emit (Post pl) (emit (Sleep dl) w\<lparr>posts := posts w + 1\<rparr>))"
  have a: "attempt E url headers pl dl v rc rd w = (Again (rc + 1) (min (rd * 2) 120), w1)"
    unfolding w1_def using Suc.prems(1,2) o by (rule attempt_429)
  have p: "posts w1 = posts w + 1"
    by (simp add: w1_def)
  have next_429: "\<forall>i. i < n \<longrightarrow> (\<exists>ra body. net E (posts w1 + i) = Response 429 ra body
                                    \<and> usable_retry_after ra)"
  proof (intro allI impI)
    fix i assume "i < n"
    then have "\<exists>ra body. net E (posts w + Suc i) = Response 429 ra body \<and> usable_retry_after ra"
      using Suc.prems(4) by blast
    then show "\<exists>ra body. net E (posts w1 + i) = Response 429 ra body \<and> usable_retry_after ra"
      by (simp add: p)
  qed
  have "\<exists>w'. api_loop E url headers pl dl v (rc + 1) (min (rd * 2) 120) w1 =
                 (Inl (RequestException ''Failed after 7 retries''), w')
           \<and> posts w' = posts w1 + n"
    using Suc.IH[of "min (rd * 2) 120" "rc + 1" w1] Suc.prems(1,2,3) next_429 by simp
  moreover have "rc < max_retries"
    using Suc.prems(3) by simp
  ultimately show ?case
    using a p by (subst api_loop.simps) auto
qed

lemma date_range_2025: "\<exists>s e. get_date_range_for_month m 2025 = Inr (s, e)"
proof -
  have "month_num_of m \<in> {1, 2, 3, 4, 5, 6, 7, 8, 9, 10, 11, 12}"
    by (auto simp: month_num_of_def month_map_def split: option.splits if_splits)
  then show ?thesis
    unfolding get_date_range_for_month_def Let_def first_day_of_def last_day_of_def
      mk_datetime_def monthrange_days_def mdays_def
    by (elim insertE emptyE) (simp_all add: isleap_def)
qed

lemma process_row_of_fetch:
  "make_api_request E url headers pl mock dl v w = (Inr body, w') \<Longrightarrow>
   mean_seconds_of body = Inr x \<Longrightarrow> seconds_to_minutes x = Inr m \<Longrightarrow>
   process_row E row idv name mc url headers pl mock dl v w = (m, w')"
  by (simp add: process_row_def and_then_def)

lemma process_row_of_failure:
  "make_api_request E url headers pl mock dl v w = (Inl e, w') \<Longrightarrow>
   process_row E row idv name mc url headers pl mock dl v w = (None, w')"
  by (simp add: process_row_def)

lemma update_row_no_result:
  assumes "\<And>pl. \<exists>w'. process_row E row (cell_values sh (row, ic)) (cell_values sh (row, 1)) mc
             api_url headers pl (mock_api a) (delay a) (verify_ssl a) w = (None, w')
             \<and> io_only w w'"
  shows "\<exists>w' es. update_row E a headers ic mc row sh w = (Inr sh, w')
           \<and> disk w' = disk w \<and> trace w' = trace w @ es \<and> (\<forall>x. Wrote row x \<notin> set es)"
proof -
  obtain s e where r: "get_date_range_for_month (month a) 2025 = Inr (s, e)"
    using date_range_2025 by blast
  define pl where "pl = \<lparr>escalation_policy_ids = [cell_values sh (row, ic)],
                           created_at_start = s, created_at_end = e\<rparr>"
  obtain w1 where p: "process_row E row (cell_values sh (row, ic)) (cell_values sh (row, 1)) mc
             api_url headers pl (mock_api a) (delay a) (verify_ssl a) w = (None, w1)"
    and io: "io_only w w1"
    using assms[of pl] by blast
  obtain es where es: "trace w1 = trace w @ es" "list_all io_event es" and d: "disk w1 = disk w"
    using io by (auto simp: io_only_def)
  have nw: "\<forall>x. Wrote row x \<notin> set (es @ [Fetched row pl None])"
    using es(2) by (auto simp: list_all_iff)
  show ?thesis
  proof (cases "\<not> truthy (cell_values sh (row, ic))
                 \<or> (has_value (cell_values sh (row, mc)) \<and> \<not> force_update a)")
    case True
    then have "update_row E a headers ic mc row sh w = (Inr sh, w)"
      by (auto simp: update_row_def Let_def)
    then show ?thesis
      by simp
  next
    case False
    then have "update_row E a headers ic mc row sh w = (Inr sh, emit (Fetched row pl None) w1)"
      using r p by (auto simp: update_row_def Let_def pl_def)
    moreover have "trace (emit (Fetched row pl None) w1) = trace w @ (es @ [Fetched row pl None])"
      using es(1) by simp
    ultimately show ?thesis
      using nw d by (metis emit_fields(2))
  qed
qed

text \<open>
  Claim C2. The ceiling of seven attempts includes the attempt that succeeds. With a
  delay that \<open>time.sleep\<close> accepts: when the first six requests end in a connection
  error and the seventh is answered 200, the fetch returns the decoded body after seven
  requests and \<open>process_row\<close> returns its mean, in minutes. When each of seven requests
  fails in a way that is retried, the fetch raises a \<open>RequestException\<close> after exactly
  seven requests and \<open>process_row\<close> returns \<open>None\<close>; the loop body of the run then
  leaves the worksheet as it was and assigns nothing to the row.
\<close>

theorem retry_ceiling:
  "(0 \<le> dl
      \<and> (\<forall>i. i < 6 \<longrightarrow> net E (posts w + i) = Raises ConnectionError)
      \<and> net E (posts w + 6) = Response 200 ra (Some body)
    \<longrightarrow> (\<exists>w'. make_api_request E url headers pl False dl v w = (Inr body, w')
            \<and> posts w' = posts w + 7
            \<and> (\<forall>x m. mean_seconds_of body = Inr x \<and> seconds_to_minutes x = Inr m \<longrightarrow>
                  process_row E row idv name mc url headers pl False dl v w = (m, w'))
            \<and> (\<forall>n. mean_seconds_of body = Inr (PInt n)
                     \<and> \<not> out_of_range (double_of (of_int n / 60)) \<longrightarrow>
                  process_row E row idv name mc url headers pl False dl v w =
                    (Some (py_round2 (Finite (double_of (of_int n / 60)))), w'))
            \<and> (\<forall>x. mean_seconds_of body = Inr (PFloat x) \<longrightarrow>
                  process_row E row idv name mc url headers pl False dl v w =
                    (Some (py_round2 (float_div_60 x)), w'))))
   \<and> (0 \<le> dl \<and> (\<forall>i. i < 7 \<longrightarrow> retried_failure (net E (posts w + i)))
    \<longrightarrow> (\<exists>e w'. make_api_request E url headers pl False dl v w = (Inl e, w')
            \<and> is_request_exception e
            \<and> posts w' = posts w + 7
            \<and> process_row E row idv name mc url headers pl False dl v w = (None, w')))
   \<and> (\<not> mock_api a \<and> 0 \<le> delay a
      \<and> (\<forall>i. i < 7 \<longrightarrow> retried_failure (net E (posts w + i)))
    \<longrightarrow> (\<exists>w' es. update_row E a headers ic mc row sh w = (Inr sh, w')
            \<and> disk w' = disk w
            \<and> trace w' = trace w @ es
            \<and> (\<forall>x. Wrote row x \<notin> set es)))"
proof (intro conjI impI)
  assume h: "0 \<le> dl
      \<and> (\<forall>i. i < 6 \<longrightarrow> net E (posts w + i) = Raises ConnectionError)
      \<and> net E (posts w + 6) = Response 200 ra (Some body)"
  then have f: "\<forall>i. i < 6 \<longrightarrow> retried_failure (net E (posts w + i))"
    by simp
  have "\<exists>w'. api_loop E url headers pl dl v 0 3 w = (Inr body, w') \<and> posts w' = posts w + 6 + 1"
    using h f by (intro api_loop_success_after[where status = 200 and ra = ra])
      (simp_all add: max_retries_def)
  then obtain w' where m: "make_api_request E url headers pl False dl v w = (Inr body, w')"
    and p: "posts w' = posts w + 7"
    by (auto simp: make_api_request_def)
  show "\<exists>w'. make_api_request E url headers pl False dl v w = (Inr body, w')
            \<and> posts w' = posts w + 7
            \<and> (\<forall>x m. mean_seconds_of body = Inr x \<and> seconds_to_minutes x = Inr m \<longrightarrow>
                  process_row E row idv name mc url headers pl False dl v w = (m, w'))
            \<and> (\<forall>n. mean_seconds_of body = Inr (PInt n)
                     \<and> \<not> out_of_range (double_of (of_int n / 60)) \<longrightarrow>
                  process_row E row idv name mc url headers pl False dl v w =
                    (Some (py_round2 (Finite (double_of (of_int n / 60)))), w'))
            \<and> (\<forall>x. mean_seconds_of body = Inr (PFloat x) \<longrightarrow>
                  process_row E row idv name mc url headers pl False dl v w =
                    (Some (py_round2 (float_div_60 x)), w'))"
    using m p process_row_of_fetch[OF m] seconds_to_minutes_number by auto
next
  assume h: "0 \<le> dl \<and> (\<forall>i. i < 7 \<longrightarrow> retried_failure (net E (posts w + i)))"
  have "\<exists>e w'. api_loop E url headers pl dl v 0 3 w = (Inl e, w')
           \<and> is_request_exception e \<and> posts w' = posts w + 7"
    using h by (intro api_loop_all_fail) (simp_all add: max_retries_def)
  then obtain e w' where m: "make_api_request E url headers pl False dl v w = (Inl e, w')"
    and e: "is_request_exception e" and p: "posts w' = posts w + 7"
    by (auto simp: make_api_request_def)
  show "\<exists>e w'. make_api_request E url headers pl False dl v w = (Inl e, w')
            \<and> is_request_exception e
            \<and> posts w' = posts w + 7
            \<and> process_row E row idv name mc url headers pl False dl v w = (None, w')"
    using m e p process_row_of_failure[OF m] by blast
next
  assume h: "\<not> mock_api a \<and> 0 \<le> delay a
      \<and> (\<forall>i. i < 7 \<longrightarrow> retried_failure (net E (posts w + i)))"
  show "\<exists>w' es. update_row E a headers ic mc row sh w = (Inr sh, w')
            \<and> disk w' = disk w
            \<and> trace w' = trace w @ es
            \<and> (\<forall>x. Wrote row x \<notin> set es)"
  proof (rule update_row_no_result)
    fix pl
    have "\<exists>e w'. api_loop E api_url headers pl (delay a) (verify_ssl a) 0 3 w = (Inl e, w')
           \<and> is_request_exception e \<and> posts w' = posts w + 7"
      using h by (intro api_loop_all_fail) (simp_all add: max_retries_def)
    then obtain e w' where
      m: "make_api_request E api_url headers pl (mock_api a) (delay a) (verify_ssl a) w = (Inl e, w')"
      using h by (auto simp: make_api_request_def)
    have "io_only w w'"
      using m by (rule io_only_make_api_request)
    with process_row_of_failure[OF m]
    show "\<exists>w'. process_row E row (cell_values sh (row, ic)) (cell_values sh (row, 1)) mc
             api_url headers pl (mock_api a) (delay a) (verify_ssl a) w = (None, w')
             \<and> io_only w w'"
      by blast
  qed
qed

lemma mean_seconds_of_ex_body: "mean_seconds_of ex_body = Inr (PInt 120)"
  by (simp add: mean_seconds_of_def and_then_def ex_body_def)

text \<open>
  Six connection errors and then a body with a mean of 120 seconds: 2 minutes, after
  seven requests. Connection errors only: \<open>None\<close> after seven requests, and row 2 of
  the example worksheet keeps its value under \<open>force_update\<close>.
\<close>

theorem retry_ceiling_witness:
  "fst (process_row ex_env_six_errors 3 (PStr ''P2'') (PStr ''Beta'') 3 api_url [] ex_payload
          False 0 True ex_world) = Some (Finite 2)
   \<and> posts (snd (make_api_request ex_env_six_errors api_url [] ex_payload False 0 True ex_world)) = 7
   \<and> fst (process_row ex_env_down 3 (PStr ''P2'') (PStr ''Beta'') 3 api_url [] ex_payload
          False 0 True ex_world) = None
   \<and> posts (snd (make_api_request ex_env_down api_url [] ex_payload False 0 True ex_world)) = 7
   \<and> fst (update_row ex_env_down ex_args_force [] 2 3 2 ex_sheet ex_world) = Inr ex_sheet"
proof -
  have six: "\<forall>i. i < 6 \<longrightarrow> net ex_env_six_errors (posts ex_world + i) = Raises ConnectionError"
    and seventh: "net ex_env_six_errors (posts ex_world + 6) = Response 200 NoRetryAfter (Some ex_body)"
    by (simp_all add: ex_env_six_errors_def ex_world_def)
  have down: "\<forall>i. i < 7 \<longrightarrow> retried_failure (net ex_env_down (posts ex_world + i))"
    by (simp add: ex_env_down_def)
  have a: "\<not> mock_api ex_args_force \<and> 0 \<le> delay ex_args_force"
    by (simp add: ex_args_force_def ex_args_def)
  note t1 = retry_ceiling[where E = ex_env_six_errors and w = ex_world and dl = 0
      and ra = NoRetryAfter and body = ex_body and url = api_url and headers = "[]"
      and pl = ex_payload and v = True and row = 3 and idv = "PStr ''P2''"
      and name = "PStr ''Beta''" and mc = 3, THEN conjunct1]
  note t2 = retry_ceiling[where E = ex_env_down and w = ex_world and dl = 0
      and url = api_url and headers = "[]"
      and pl = ex_payload and v = True and row = 3 and idv = "PStr ''P2''"
      and name = "PStr ''Beta''" and mc = 3, THEN conjunct2, THEN conjunct1]
  note t3 = retry_ceiling[where E = ex_env_down and w = ex_world and a = ex_args_force
      and headers = "[]" and ic = 2 and mc = 3 and row = 2 and sh = ex_sheet,
      THEN conjunct2, THEN conjunct2]
  have c1: "fst (process_row ex_env_six_errors 3 (PStr ''P2'') (PStr ''Beta'') 3 api_url []
          ex_payload False 0 True ex_world) = Some (Finite 2)
     \<and> posts (snd (make_api_request ex_env_six_errors api_url [] ex_payload False 0 True
          ex_world)) = 7"
  proof -
    obtain w' where m: "make_api_request ex_env_six_errors api_url [] ex_payload False 0 True
          ex_world = (Inr ex_body, w')"
      and p: "posts w' = posts ex_world + 7"
      and g: "\<forall>x m. mean_seconds_of ex_body = Inr x \<and> seconds_to_minutes x = Inr m \<longrightarrow>
                process_row ex_env_six_errors 3 (PStr ''P2'') (PStr ''Beta'') 3 api_url []
                  ex_payload False 0 True ex_world = (m, w')"
      using t1 six seventh by auto
    have "process_row ex_env_six_errors 3 (PStr ''P2'') (PStr ''Beta'') 3 api_url []
                  ex_payload False 0 True ex_world = (Some (Finite 2), w')"
      using g mean_seconds_of_ex_body minutes_of_120_and_90(1) by blast
    then show ?thesis
      using m p by (simp add: ex_world_def)
  qed
  have c2: "fst (process_row ex_env_down 3 (PStr ''P2'') (PStr ''Beta'') 3 api_url [] ex_payload
          False 0 True ex_world) = None
     \<and> posts (snd (make_api_request ex_env_down api_url [] ex_payload False 0 True ex_world)) = 7"
    using t2 down by (auto simp: ex_world_def)
  have c3: "fst (update_row ex_env_down ex_args_force [] 2 3 2 ex_sheet ex_world) = Inr ex_sheet"
    using t3 a down by auto
  show ?thesis
    using c1 c2 c3 by simp
qed

text \<open>
  Claim C3. A 429 whose \<open>Retry-After\<close> is absent or a duration raises nothing. The pass
  through the loop sleeps the delay, posts, sleeps the header's seconds (the current
  \<open>retry_delay\<close> when the header is absent), and goes on with \<open>retry_count + 1\<close> and
  \<open>min(retry_delay * 2, 120)\<close>. Seven such answers in a row end the fetch after seven
  requests with \<open>RequestException("Failed after 7 retries")\<close>. (The loop starts with
  \<open>retry_delay = 3\<close> and only doubles it, so it is never negative.)
\<close>

theorem rate_limited:
  "(0 \<le> dl \<and> 0 \<le> retry_delay \<and> retry_count < max_retries
      \<and> net E (posts w) = Response 429 ra body \<and> usable_retry_after ra
    \<longrightarrow> (let secs = (case ra of RetryAfterInt n \<Rightarrow> n | _ \<Rightarrow> retry_delay);
              w' = emit (Sleep (of_int secs))
                     (emit (Post pl) (emit (Sleep dl) w\<lparr>posts := posts w + 1\<rparr>))
          in attempt E url headers pl dl v retry_count retry_delay w =
               (Again (retry_count + 1) (min (retry_delay * 2) 120), w')
             \<and> api_loop E url headers pl dl v retry_count retry_delay w =
               api_loop E url headers pl dl v (retry_count + 1) (min (retry_delay * 2) 120) w'))
   \<and> (0 \<le> dl
      \<and> (\<forall>i. i < 7 \<longrightarrow> (\<exists>ra body. net E (posts w + i) = Response 429 ra body
                                 \<and> usable_retry_after ra))
    \<longrightarrow> (\<exists>w'. make_api_request E url headers pl False dl v w =
                 (Inl (RequestException ''Failed after 7 retries''), w')
            \<and> posts w' = posts w + 7))"
proof (intro conjI impI)
  assume h: "0 \<le> dl \<and> 0 \<le> retry_delay \<and> retry_count < max_retries
      \<and> net E (posts w) = Response 429 ra body \<and> usable_retry_after ra"
  define w' where "w' = emit (Sleep (of_int (case ra of RetryAfterInt n \<Rightarrow> n | _ \<Rightarrow> retry_delay)))
                     (emit (Post pl) (emit (Sleep dl) w\<lparr>posts := posts w + 1\<rparr>))"
  have a: "attempt E url headers pl dl v retry_count retry_delay w =
               (Again (retry_count + 1) (min (retry_delay * 2) 120), w')"
    unfolding w'_def using h by (intro attempt_429) simp_all
  have l: "api_loop E url headers pl dl v retry_count retry_delay w =
               api_loop E url headers pl dl v (retry_count + 1) (min (retry_delay * 2) 120) w'"
    using a h by (subst api_loop.simps) simp
  show "let secs = (case ra of RetryAfterInt n \<Rightarrow> n | _ \<Rightarrow> retry_delay);
              w' = emit (Sleep (of_int secs))
                     (emit (Post pl) (emit (Sleep dl) w\<lparr>posts := posts w + 1\<rparr>))
          in attempt E url headers pl dl v retry_count retry_delay w =
               (Again (retry_count + 1) (min (retry_delay * 2) 120), w')
             \<and> api_loop E url headers pl dl v retry_count retry_delay w =
               api_loop E url headers pl dl v (retry_count + 1) (min (retry_delay * 2) 120) w'"
    using a l unfolding Let_def w'_def by simp
next
  assume h: "0 \<le> dl
      \<and> (\<forall>i. i < 7 \<longrightarrow> (\<exists>ra body. net E (posts w + i) = Response 429 ra body
                                 \<and> usable_retry_after ra))"
  have "\<exists>w'. api_loop E url headers pl dl v 0 3 w =
                 (Inl (RequestException ''Failed after 7 retries''), w')
           \<and> posts w' = posts w + 7"
    using h by (intro api_loop_all_429) (simp_all add: max_retries_def)
  then show "\<exists>w'. make_api_request E url headers pl False dl v w =
                 (Inl (RequestException ''Failed after 7 retries''), w')
            \<and> posts w' = posts w + 7"
    by (simp add: make_api_request_def)
qed

text \<open>
  The first pass (no header, \<open>retry_delay = 3\<close>), the sixth (\<open>Retry-After: 1\<close>,
  \<open>retry_delay = 96\<close>, capped at 120 afterwards), and the whole fetch.
\<close>

theorem rate_limited_witness:
  "attempt ex_env_limited api_url [] ex_payload (1 / 2) True 0 3 ex_world =
     (Again 1 6, ex_world\<lparr>posts := 1, trace := [Sleep (1 / 2), Post ex_payload, Sleep 3]\<rparr>)
   \<and> attempt ex_env_limited api_url [] ex_payload (1 / 2) True 5 96 (ex_world\<lparr>posts := 5\<rparr>) =
     (Again 6 120, ex_world\<lparr>posts := 6, trace := [Sleep (1 / 2), Post ex_payload, Sleep 1]\<rparr>)
   \<and> fst (make_api_request ex_env_limited api_url [] ex_payload False (1 / 2) True ex_world) =
       Inl (RequestException ''Failed after 7 retries'')
   \<and> posts (snd (make_api_request ex_env_limited api_url [] ex_payload False (1 / 2) True
       ex_world)) = 7"
proof -
  note t1 = rate_limited[where E = ex_env_limited and w = ex_world and dl = "1 / 2"
      and retry_delay = 3 and retry_count = 0 and ra = NoRetryAfter and body = None
      and url = api_url and headers = "[]" and pl = ex_payload and v = True, THEN conjunct1]
  note t2 = rate_limited[where E = ex_env_limited and w = "ex_world\<lparr>posts := 5\<rparr>"
      and dl = "1 / 2" and retry_delay = 96 and retry_count = 5 and ra = "RetryAfterInt 1"
      and body = None and url = api_url and headers = "[]" and pl = ex_payload and v = True,
      THEN conjunct1]
  note t3 = rate_limited[where E = ex_env_limited and w = ex_world and dl = "1 / 2"
      and url = api_url and headers = "[]" and pl = ex_payload and v = True, THEN conjunct2]
  have c1: "attempt ex_env_limited api_url [] ex_payload (1 / 2) True 0 3 ex_world =
     (Again 1 6, ex_world\<lparr>posts := 1, trace := [Sleep (1 / 2), Post ex_payload, Sleep 3]\<rparr>)"
    using t1 by (simp add: ex_env_limited_def ex_world_def max_retries_def emit_def Let_def)
  have c2: "attempt ex_env_limited api_url [] ex_payload (1 / 2) True 5 96 (ex_world\<lparr>posts := 5\<rparr>) =
     (Again 6 120, ex_world\<lparr>posts := 6, trace := [Sleep (1 / 2), Post ex_payload, Sleep 1]\<rparr>)"
    using t2 by (simp add: ex_env_limited_def ex_world_def max_retries_def emit_def Let_def)
  have all: "\<forall>i. i < 7 \<longrightarrow> (\<exists>ra body. net ex_env_limited (posts ex_world + i) = Response 429 ra body
                                 \<and> usable_retry_after ra)"
    by (simp add: ex_env_limited_def)
  have c3: "fst (make_api_request ex_env_limited api_url [] ex_payload False (1 / 2) True ex_world) =
       Inl (RequestException ''Failed after 7 retries'')
     \<and> posts (snd (make_api_request ex_env_limited api_url [] ex_payload False (1 / 2) True
       ex_world)) = 7"
    using t3 all by (auto simp: ex_world_def)
  show ?thesis
    using c1 c2 c3 by simp
qed

section \<open>The mock fetch\<close>

lemma randint_range:
  assumes "a \<le> b" and "randint E a b w = (n, w')"
  shows "a \<le> n \<and> n \<le> b \<and> w' = w\<lparr>draws := draws w + 1\<rparr>"
proof -
  have pos: "0 < nat (b - a + 1)"
    using assms(1) by simp
  have "rnd E (draws w) mod nat (b - a + 1) < nat (b - a + 1)"
    using pos by (rule mod_less_divisor)
  then have "int (rnd E (draws w) mod nat (b - a + 1)) \<le> b - a"
    using assms(1) by linarith
  with assms(2) show ?thesis
    by (auto simp: randint_def)
qed

lemma mock_response_fields:
  "and_then (py_getitem (mock_response n k) ''data'') (\<lambda>d. and_then (py_first d)
      (\<lambda>item. py_get item ''mean_seconds_to_first_ack'')) = Inr (PInt n)"
  "and_then (py_getitem (mock_response n k) ''data'') (\<lambda>d. and_then (py_first d)
      (\<lambda>item. py_get item ''total_incident_count'')) = Inr (PInt k)"
  by (simp_all add: mock_response_def and_then_def)

text \<open>
  Claim C6. With \<open>mock_api\<close> the fetch returns, it does not raise; the world afterwards
  differs only in the two random draws (no request, no sleep, the file untouched); and in
  the returned body \<open>data[0].mean_seconds_to_first_ack\<close> lies in 120..7200 and
  \<open>data[0].total_incident_count\<close> in 5..20.
\<close>

theorem mock_fetch:
  "\<exists>n k. make_api_request E url headers pl True dl v w =
            (Inr (mock_response n k), w\<lparr>draws := draws w + 2\<rparr>)
     \<and> 120 \<le> n \<and> n \<le> 7200 \<and> 5 \<le> k \<and> k \<le> 20
     \<and> and_then (py_getitem (mock_response n k) ''data'') (\<lambda>d. and_then (py_first d)
          (\<lambda>item. py_get item ''mean_seconds_to_first_ack'')) = Inr (PInt n)
     \<and> and_then (py_getitem (mock_response n k) ''data'') (\<lambda>d. and_then (py_first d)
          (\<lambda>item. py_get item ''total_incident_count'')) = Inr (PInt k)
     \<and> mean_seconds_of (mock_response n k) = Inr (PInt n)"
proof -
  obtain n w1 where r1: "randint E 120 7200 w = (n, w1)"
    by (cases "randint E 120 7200 w")
  obtain k w2 where r2: "randint E 5 20 w1 = (k, w2)"
    by (cases "randint E 5 20 w1")
  have n: "120 \<le> n \<and> n \<le> 7200" and w1: "w1 = w\<lparr>draws := draws w + 1\<rparr>"
    using randint_range[OF _ r1] by simp_all
  have k: "5 \<le> k \<and> k \<le> 20" and w2: "w2 = w1\<lparr>draws := draws w1 + 1\<rparr>"
    using randint_range[OF _ r2] by simp_all
  have m: "make_api_request E url headers pl True dl v w =
            (Inr (mock_response n k), w\<lparr>draws := draws w + 2\<rparr>)"
    using r1 r2 by (simp add: make_api_request_def w1 w2)
  have ms: "mean_seconds_of (mock_response n k) = Inr (PInt n)"
    by (simp add: mean_seconds_of_def mock_response_def and_then_def)
  show ?thesis
    using m n k ms mock_response_fields[of n k] by blast
qed

text \<open>The mock fetch on large raw random values, with a delay that is never slept.\<close>

theorem mock_fetch_witness:
  "make_api_request ex_env_mock api_url [] ex_payload True (- 1) True ex_world =
     (Inr (mock_response 1702 11), ex_world\<lparr>draws := 2\<rparr>)
   \<and> (\<exists>n k. make_api_request ex_env_mock api_url [] ex_payload True (- 1) True ex_world =
            (Inr (mock_response n k), ex_world\<lparr>draws := draws ex_world + 2\<rparr>)
         \<and> 120 \<le> n \<and> n \<le> 7200 \<and> 5 \<le> k \<and> k \<le> 20)"
proof -
  have "make_api_request ex_env_mock api_url [] ex_payload True (- 1) True ex_world =
     (Inr (mock_response 1702 11), ex_world\<lparr>draws := 2\<rparr>)"
    by (simp add: make_api_request_def randint_def ex_env_mock_def ex_world_def)
  moreover have "\<exists>n k. make_api_request ex_env_mock api_url [] ex_payload True (- 1) True ex_world =
            (Inr (mock_response n k), ex_world\<lparr>draws := draws ex_world + 2\<rparr>)
         \<and> 120 \<le> n \<and> n \<le> 7200 \<and> 5 \<le> k \<and> k \<le> 20"
    using mock_fetch[of ex_env_mock api_url "[]" ex_payload "- 1" True ex_world] by blast
  ultimately show ?thesis
    by blast
qed

section \<open>The row range\<close>

lemma py_index_Inr_iff: "(\<exists>i. py_index xs x = Inr i) \<longleftrightarrow> x \<in> set xs"
  by (induction xs) (auto split: sum.splits)

lemma py_index_Inl: "x \<notin> set xs \<Longrightarrow> py_index xs x = Inl ValueError"
  by (induction xs) (auto split: sum.splits)

text \<open>The run once the file, both columns and the token are there.\<close>

lemma run_ok:
  assumes "disk w = Some sh"
    and "py_index (header_row sh) (PStr ''id'') = Inr i"
    and "py_index (header_row sh) (PStr (month a)) = Inr j"
    and "\<not> (no_token (api_token_var E) \<and> \<not> mock_api a)"
  shows "fetch_and_update_pagerduty_metrics E a w =
    (case process_rows E a (request_headers (api_token_var E)) (int i + 1) (int j + 1)
            [fst (row_range (start_row a) (end_row a) (max_row sh))
             ..snd (row_range (start_row a) (end_row a) (max_row sh))] sh w of
       (Inl e, w') \<Rightarrow> (Inl e, w')
     | (Inr sh', w') \<Rightarrow> (Inr (), emit Saved (w'\<lparr>disk := Some sh'\<rparr>)))"
  using assms
  by (auto simp: fetch_and_update_pagerduty_metrics_def Let_def split: prod.splits)

text \<open>
  Claim C8. Without bounds the range is row 2 to the last row. A start bound replaces 2
  only when it is greater, an end bound replaces the last row only when it is smaller
  (a bound of 0 counts as no bound at all, by the truth test in front of the
  comparison). With both bounds 5 on a sheet of 100 rows the range is 5 to 5, and the
  run is the loop body for row 5, once, followed by the save.
\<close>

theorem row_range_bounds:
  "row_range None None n = (2, n)
   \<and> fst (row_range s e n) = (case s of None \<Rightarrow> 2 | Some s' \<Rightarrow> max 2 s')
   \<and> snd (row_range s e n) = (case e of None \<Rightarrow> n | Some e' \<Rightarrow> if e' = 0 then n else min n e')
   \<and> row_range (Some 5) (Some 5) 100 = (5, 5)
   \<and> (max_row sh = 100 \<and> start_row a = Some 5 \<and> end_row a = Some 5
        \<and> disk w = Some sh
        \<and> py_index (header_row sh) (PStr ''id'') = Inr i
        \<and> py_index (header_row sh) (PStr (month a)) = Inr j
        \<and> \<not> (no_token (api_token_var E) \<and> \<not> mock_api a)
      \<longrightarrow> fetch_and_update_pagerduty_metrics E a w =
            (case update_row E a (request_headers (api_token_var E)) (int i + 1) (int j + 1) 5 sh w of
               (Inl e, w') \<Rightarrow> (Inl e, w')
             | (Inr sh', w') \<Rightarrow> (Inr (), emit Saved (w'\<lparr>disk := Some sh'\<rparr>))))"
proof (intro conjI impI)
  show "row_range None None n = (2, n)"
    by (simp add: row_range_def)
  show "fst (row_range s e n) = (case s of None \<Rightarrow> 2 | Some s' \<Rightarrow> max 2 s')"
    by (simp add: row_range_def Let_def split: option.splits)
  show "snd (row_range s e n) = (case e of None \<Rightarrow> n | Some e' \<Rightarrow> if e' = 0 then n else min n e')"
    by (simp add: row_range_def Let_def split: option.splits)
  show r: "row_range (Some 5) (Some 5) 100 = (5, 5)"
    by (simp add: row_range_def)
  assume h: "max_row sh = 100 \<and> start_row a = Some 5 \<and> end_row a = Some 5
        \<and> disk w = Some sh
        \<and> py_index (header_row sh) (PStr ''id'') = Inr i
        \<and> py_index (header_row sh) (PStr (month a)) = Inr j
        \<and> \<not> (no_token (api_token_var E) \<and> \<not> mock_api a)"
  have rows: "[fst (row_range (start_row a) (end_row a) (max_row sh))
             ..snd (row_range (start_row a) (end_row a) (max_row sh))] = [5]"
    using h r by simp
  show "fetch_and_update_pagerduty_metrics E a w =
            (case update_row E a (request_headers (api_token_var E)) (int i + 1) (int j + 1) 5 sh w of
               (Inl e, w') \<Rightarrow> (Inl e, w')
             | (Inr sh', w') \<Rightarrow> (Inr (), emit Saved (w'\<lparr>disk := Some sh'\<rparr>)))"
    using run_ok[of w sh i a j E] h rows
    by (simp split: prod.splits sum.splits)
qed

lemma header_row_ex_sheet_100:
  "header_row ex_sheet_100 = [PStr ''name'', PStr ''id'', PStr ''Jan'']"
  by (simp add: header_row_def ex_sheet_100_def ex_sheet_def upto_rec1)

lemma date_range_Jan_2025:
  "get_date_range_for_month ''Jan'' 2025 =
     Inr (''2025-01-01T00:00:00.000000Z'', ''2025-01-31T00:00:00.000000Z'')"
  by code_simp

text \<open>The run on the 100-row example in mock mode: row 5 is fetched and assigned, no other.\<close>

theorem row_range_bounds_witness:
  "fetch_and_update_pagerduty_metrics ex_env_mock ex_args_row_5
      (ex_world\<lparr>disk := Some ex_sheet_100\<rparr>) =
     (Inr (),
      \<lparr>posts = 0, draws = 2,
       trace = [Fetched 5 \<lparr>escalation_policy_ids = [PStr ''P5''],
                           created_at_start = ''2025-01-01T00:00:00.000000Z'',
                           created_at_end = ''2025-01-31T00:00:00.000000Z''\<rparr>
                  (Some (Finite (double_of (2837 / 100)))),
                Wrote 5 (Finite (double_of (2837 / 100))), Saved],
       disk = Some (set_cell ex_sheet_100 5 3 (Finite (double_of (2837 / 100))))\<rparr>)"
proof -
  define w0 where "w0 = ex_world\<lparr>disk := Some ex_sheet_100\<rparr>"
  define pl where "pl = \<lparr>escalation_policy_ids = [PStr ''P5''],
                           created_at_start = ''2025-01-01T00:00:00.000000Z'',
                           created_at_end = ''2025-01-31T00:00:00.000000Z''\<rparr>"
  have args: "mock_api ex_args_row_5" "month ex_args_row_5 = ''Jan''"
    "\<not> force_update ex_args_row_5" "delay ex_args_row_5 = 0" "verify_ssl ex_args_row_5"
    "start_row ex_args_row_5 = Some 5" "end_row ex_args_row_5 = Some 5"
    by (simp_all add: ex_args_row_5_def ex_args_def)
  have cells: "cell_values ex_sheet_100 (5, 1) = PStr ''Echo''"
    "cell_values ex_sheet_100 (5, 2) = PStr ''P5''" "cell_values ex_sheet_100 (5, 3) = PNone"
    "max_row ex_sheet_100 = 100"
    by (simp_all add: ex_sheet_100_def ex_sheet_def)
  have i: "py_index (header_row ex_sheet_100) (PStr ''id'') = Inr 1"
    and j: "py_index (header_row ex_sheet_100) (PStr (month ex_args_row_5)) = Inr 2"
    by (simp_all add: header_row_ex_sheet_100 args)
  have r: "seconds_to_minutes (PInt 1702) = Inr (Some (Finite (double_of (2837 / 100))))"
    by code_simp
  have f: "make_api_request ex_env_mock url hd p True dl v w0 =
           (Inr (mock_response 1702 11), w0\<lparr>draws := 2\<rparr>)" for url hd p dl v
    by (simp add: make_api_request_def randint_def ex_env_mock_def ex_world_def w0_def)
  have m: "mean_seconds_of (mock_response 1702 11) = Inr (PInt 1702)"
    by (simp add: mean_seconds_of_def mock_response_def and_then_def)
  have p: "process_row ex_env_mock row idv name mc url hd p True dl v w0 =
           (Some (Finite (double_of (2837 / 100))), w0\<lparr>draws := 2\<rparr>)" for row idv name mc url hd p dl v
    by (simp add: process_row_def f m and_then_def r)
  have u: "update_row ex_env_mock ex_args_row_5 (request_headers (api_token_var ex_env_mock))
             (int 1 + 1) (int 2 + 1) 5 ex_sheet_100 w0 =
           (Inr (set_cell ex_sheet_100 5 3 (Finite (double_of (2837 / 100)))),
            emit (Wrote 5 (Finite (double_of (2837 / 100)))) (emit (Fetched 5 pl (Some (Finite (double_of (2837 / 100)))))
              (w0\<lparr>draws := 2\<rparr>)))"
    by (simp add: update_row_def Let_def args cells has_value_def date_range_Jan_2025 p pl_def)
  have pre: "max_row ex_sheet_100 = 100 \<and> start_row ex_args_row_5 = Some 5
        \<and> end_row ex_args_row_5 = Some 5
        \<and> disk w0 = Some ex_sheet_100
        \<and> py_index (header_row ex_sheet_100) (PStr ''id'') = Inr 1
        \<and> py_index (header_row ex_sheet_100) (PStr (month ex_args_row_5)) = Inr 2
        \<and> \<not> (no_token (api_token_var ex_env_mock) \<and> \<not> mock_api ex_args_row_5)"
    using i j args cells by (simp add: w0_def)
  note t = row_range_bounds[where sh = ex_sheet_100 and a = ex_args_row_5
      and w = w0 and i = 1 and j = 2 and E = ex_env_mock,
      THEN conjunct2, THEN conjunct2, THEN conjunct2, THEN conjunct2, rule_format, OF pre]
  have "fetch_and_update_pagerduty_metrics ex_env_mock ex_args_row_5 w0 =
     (Inr (), emit Saved ((emit (Wrote 5 (Finite (double_of (2837 / 100)))) (emit (Fetched 5 pl (Some (Finite (double_of (2837 / 100)))))
              (w0\<lparr>draws := 2\<rparr>)))\<lparr>disk := Some (set_cell ex_sheet_100 5 3 (Finite (double_of (2837 / 100))))\<rparr>))"
    unfolding t u by simp
  then show ?thesis
    by (simp add: emit_def w0_def ex_world_def pl_def)
qed

section \<open>Run-level preconditions\<close>

lemma new_events_same [simp]: "new_events w w = []"
  by (simp add: new_events_def)

lemma new_events_emit [simp]: "new_events w (emit ev w) = [ev]"
  by (simp add: new_events_def emit_def)

text \<open>
  Claim C7. A missing file, a month that is not in the header row, or no token outside
  mock mode: the run returns at once with the matching error message as its only trace
  (for the last two: when the header row has an \<open>id\<close> column, which is looked up first;
  without one that lookup raises \<open>ValueError\<close> and the run ends there). In every one of
  these cases, with or without the \<open>id\<close> column, the file on disk is as before, no
  request was made, no random number drawn, and the trace gained at most one message:
  no row was fetched, assigned or saved.
\<close>

theorem preconditions_abort:
  "(disk w = None
      \<longrightarrow> fetch_and_update_pagerduty_metrics E a w =
            (Inr (), emit (Printed ExcelFileNotFound) w))
   \<and> (disk w = Some sh \<and> PStr ''id'' \<in> set (header_row sh)
        \<and> PStr (month a) \<notin> set (header_row sh)
      \<longrightarrow> fetch_and_update_pagerduty_metrics E a w =
            (Inr (), emit (Printed (ColumnNotFound (month a) (header_row sh))) w))
   \<and> (disk w = Some sh \<and> PStr ''id'' \<in> set (header_row sh)
        \<and> PStr (month a) \<in> set (header_row sh)
        \<and> no_token (api_token_var E) \<and> \<not> mock_api a
      \<longrightarrow> fetch_and_update_pagerduty_metrics E a w = (Inr (), emit (Printed TokenNotSet) w))
   \<and> (disk w = None
        \<or> (\<exists>sh. disk w = Some sh
              \<and> (PStr (month a) \<notin> set (header_row sh)
                   \<or> (no_token (api_token_var E) \<and> \<not> mock_api a)))
      \<longrightarrow> (\<exists>r w'. fetch_and_update_pagerduty_metrics E a w = (r, w')
             \<and> disk w' = disk w \<and> posts w' = posts w \<and> draws w' = draws w
             \<and> (new_events w w' = [] \<or> (\<exists>m. new_events w w' = [Printed m]))))"
proof (intro conjI impI)
  assume "disk w = None"
  then show "fetch_and_update_pagerduty_metrics E a w =
            (Inr (), emit (Printed ExcelFileNotFound) w)"
    by (simp add: fetch_and_update_pagerduty_metrics_def)
next
  assume h: "disk w = Some sh \<and> PStr ''id'' \<in> set (header_row sh)
        \<and> PStr (month a) \<notin> set (header_row sh)"
  then obtain i where "py_index (header_row sh) (PStr ''id'') = Inr i"
    using py_index_Inr_iff by metis
  moreover have "py_index (header_row sh) (PStr (month a)) = Inl ValueError"
    using h by (simp add: py_index_Inl)
  ultimately show "fetch_and_update_pagerduty_metrics E a w =
            (Inr (), emit (Printed (ColumnNotFound (month a) (header_row sh))) w)"
    using h by (simp add: fetch_and_update_pagerduty_metrics_def Let_def)
next
  assume h: "disk w = Some sh \<and> PStr ''id'' \<in> set (header_row sh)
        \<and> PStr (month a) \<in> set (header_row sh)
        \<and> no_token (api_token_var E) \<and> \<not> mock_api a"
  then obtain i j where "py_index (header_row sh) (PStr ''id'') = Inr i"
    and "py_index (header_row sh) (PStr (month a)) = Inr j"
    using py_index_Inr_iff by metis
  then show "fetch_and_update_pagerduty_metrics E a w = (Inr (), emit (Printed TokenNotSet) w)"
    using h by (simp add: fetch_and_update_pagerduty_metrics_def Let_def)
next
  assume h: "disk w = None
        \<or> (\<exists>sh. disk w = Some sh
              \<and> (PStr (month a) \<notin> set (header_row sh)
                   \<or> (no_token (api_token_var E) \<and> \<not> mock_api a)))"
  show "\<exists>r w'. fetch_and_update_pagerduty_metrics E a w = (r, w')
             \<and> disk w' = disk w \<and> posts w' = posts w \<and> draws w' = draws w
             \<and> (new_events w w' = [] \<or> (\<exists>m. new_events w w' = [Printed m]))"
  proof (cases "disk w")
    case None
    then show ?thesis
      by (simp add: fetch_and_update_pagerduty_metrics_def)
  next
    case (Some sh)
    with h have c: "PStr (month a) \<notin> set (header_row sh)
                   \<or> (no_token (api_token_var E) \<and> \<not> mock_api a)"
      by simp
    show ?thesis
    proof (cases "py_index (header_row sh) (PStr ''id'')")
      case (Inl e)
      with Some show ?thesis
        by (simp add: fetch_and_update_pagerduty_metrics_def)
    next
      case (Inr i)
      show ?thesis
      proof (cases "py_index (header_row sh) (PStr (month a))")
        case (Inl e)
        with Some Inr show ?thesis
          by (simp add: fetch_and_update_pagerduty_metrics_def)
      next
        case j: (Inr j)
        then have "PStr (month a) \<in> set (header_row sh)"
          using py_index_Inr_iff by metis
        with c have "no_token (api_token_var E) \<and> \<not> mock_api a"
          by simp
        with Some Inr j show ?thesis
          by (simp add: fetch_and_update_pagerduty_metrics_def)
      qed
    qed
  qed
qed

lemma header_row_ex_sheet:
  "header_row ex_sheet = [PStr ''name'', PStr ''id'', PStr ''Jan'']"
  by (simp add: header_row_def ex_sheet_def upto_rec1)

text \<open>The three aborts on the example inputs.\<close>

theorem preconditions_abort_witness:
  "fetch_and_update_pagerduty_metrics ex_env_down ex_args ex_world =
     (Inr (), ex_world\<lparr>trace := [Printed ExcelFileNotFound]\<rparr>)
   \<and> fetch_and_update_pagerduty_metrics ex_env_down (ex_args\<lparr>month := ''Feb''\<rparr>)
       (ex_world\<lparr>disk := Some ex_sheet\<rparr>) =
     (Inr (), ex_world\<lparr>disk := Some ex_sheet,
        trace := [Printed (ColumnNotFound ''Feb'' [PStr ''name'', PStr ''id'', PStr ''Jan''])]\<rparr>)
   \<and> fetch_and_update_pagerduty_metrics ex_env_mock ex_args (ex_world\<lparr>disk := Some ex_sheet\<rparr>) =
     (Inr (), ex_world\<lparr>disk := Some ex_sheet, trace := [Printed TokenNotSet]\<rparr>)"
proof -
  note t1 = preconditions_abort[where w = ex_world and E = ex_env_down and a = ex_args,
      THEN conjunct1]
  note t2 = preconditions_abort[where w = "ex_world\<lparr>disk := Some ex_sheet\<rparr>" and sh = ex_sheet
      and E = ex_env_down and a = "ex_args\<lparr>month := ''Feb''\<rparr>",
      THEN conjunct2, THEN conjunct1]
  note t3 = preconditions_abort[where w = "ex_world\<lparr>disk := Some ex_sheet\<rparr>" and sh = ex_sheet
      and E = ex_env_mock and a = ex_args,
      THEN conjunct2, THEN conjunct2, THEN conjunct1]
  have c1: "fetch_and_update_pagerduty_metrics ex_env_down ex_args ex_world =
     (Inr (), ex_world\<lparr>trace := [Printed ExcelFileNotFound]\<rparr>)"
    using t1 by (simp add: ex_world_def emit_def)
  have c2: "fetch_and_update_pagerduty_metrics ex_env_down (ex_args\<lparr>month := ''Feb''\<rparr>)
       (ex_world\<lparr>disk := Some ex_sheet\<rparr>) =
     (Inr (), ex_world\<lparr>disk := Some ex_sheet,
        trace := [Printed (ColumnNotFound ''Feb'' [PStr ''name'', PStr ''id'', PStr ''Jan''])]\<rparr>)"
    using t2 by (simp add: header_row_ex_sheet ex_world_def emit_def)
  have c3: "fetch_and_update_pagerduty_metrics ex_env_mock ex_args (ex_world\<lparr>disk := Some ex_sheet\<rparr>) =
     (Inr (), ex_world\<lparr>disk := Some ex_sheet, trace := [Printed TokenNotSet]\<rparr>)"
    using t3 by (simp add: header_row_ex_sheet ex_world_def emit_def ex_args_def ex_env_mock_def
        no_token_def)
  show ?thesis
    using c1 c2 c3 by simp
qed

section \<open>The loop over the rows\<close>

lemma fetch_results_append [simp]:
  "fetch_results r (es @ es') = fetch_results r es @ fetch_results r es'"
  by (simp add: fetch_results_def)

lemma written_values_append [simp]:
  "written_values r (es @ es') = written_values r es @ written_values r es'"
  by (simp add: written_values_def)

lemma fetched_payloads_append [simp]:
  "fetched_payloads (es @ es') = fetched_payloads es @ fetched_payloads es'"
  by (simp add: fetched_payloads_def)







section \<open>The run\<close>






section \<open>Runs of the example worksheet\<close>










section \<open>Outside the hypotheses\<close>

text \<open>
  What the code does where the statements above do not apply: a negative delay, a 429
  whose \<open>Retry-After\<close> is not a number or is negative, a year that \<open>datetime\<close> rejects,
  a header row without \<open>id\<close>, an identifier that is not true.
\<close>

lemma negative_delay_raises:
  assumes "dl < 0"
  shows "make_api_request E url headers pl False dl v w = (Inl ValueError, w)"
  using assms
  by (simp add: make_api_request_def api_loop.simps max_retries_def attempt_def py_sleep_def)

lemma bad_retry_after_raises:
  assumes "0 \<le> dl" and "net E (posts w) = Response 429 RetryAfterBad body"
  shows "make_api_request E url headers pl False dl v w =
           (Inl ValueError, emit (Post pl) (emit (Sleep dl) w\<lparr>posts := posts w + 1\<rparr>))"
  using assms
  by (simp add: make_api_request_def api_loop.simps max_retries_def attempt_def py_sleep_ok
      requests_post_def)

lemma negative_retry_after_raises:
  assumes "0 \<le> dl" and "net E (posts w) = Response 429 (RetryAfterInt n) body" and "n < 0"
  shows "make_api_request E url headers pl False dl v w =
           (Inl ValueError, emit (Post pl) (emit (Sleep dl) w\<lparr>posts := posts w + 1\<rparr>))"
  using assms
  by (simp add: make_api_request_def api_loop.simps max_retries_def attempt_def py_sleep_ok
      requests_post_def py_sleep_def)

lemma year_out_of_range_raises:
  assumes "year < 1 \<or> 9999 < year"
  shows "get_date_range_for_month month_name year = Inl ValueError"
  using assms
  by (auto simp: get_date_range_for_month_def Let_def first_day_of_def mk_datetime_def)

lemma missing_id_column_raises:
  assumes "disk w = Some sh" and "PStr ''id'' \<notin> set (header_row sh)"
  shows "fetch_and_update_pagerduty_metrics E a w = (Inl ValueError, w)"
  using assms by (simp add: fetch_and_update_pagerduty_metrics_def Let_def py_index_Inl)

lemma falsy_id_skipped:
  assumes "\<not> truthy (cell_values sh (r, ic))"
  shows "update_row E a hs ic mc r sh w = (Inr sh, w)"
  using assms by (simp add: update_row_def)

text \<open>
  Claim C3 as it is written, on every 429, does not hold: with a \<open>Retry-After\<close> that
  \<open>int\<close> rejects, the first 429 ends the fetch with \<open>ValueError\<close>, after one request,
  with no second sleep and no retry.
\<close>

theorem rate_limited_counterexample:
  "net ex_env_retry_date (posts ex_world) = Response 429 RetryAfterBad None
   \<and> make_api_request ex_env_retry_date api_url [] ex_payload False (1 / 2) True ex_world =
       (Inl ValueError, ex_world\<lparr>posts := 1, trace := [Sleep (1 / 2), Post ex_payload]\<rparr>)"
proof -
  have n: "net ex_env_retry_date (posts ex_world) = Response 429 RetryAfterBad None"
    by (simp add: ex_env_retry_date_def)
  have "make_api_request ex_env_retry_date api_url [] ex_payload False (1 / 2) True ex_world =
       (Inl ValueError,
        emit (Post ex_payload) (emit (Sleep (1 / 2)) ex_world\<lparr>posts := posts ex_world + 1\<rparr>))"
    using n by (intro bad_retry_after_raises) simp_all
  then show ?thesis
    using n by (simp add: emit_def ex_world_def)
qed

end
